theory Spec2Isabelle
  imports Complex_Main "HOL-Library.Log_Nat"
begin

section \<open>JavaScript values used by the caches\<close>

text \<open>
  Strings are \<^typ>\<open>string\<close> (ASCII), timestamps and durations are whole milliseconds
  (\<^typ>\<open>int\<close>), and a field that may be \<^verbatim>\<open>null\<close> or absent is an \<^typ>\<open>'a option\<close>.
  \<^verbatim>\<open>x && ...\<close> on a number is JavaScript truthiness: \<^verbatim>\<open>null\<close>, \<^verbatim>\<open>undefined\<close>
  and \<^verbatim>\<open>0\<close> are falsy.
\<close>

definition truthy_num :: "int option \<Rightarrow> bool" where
  "truthy_num x = (case x of None \<Rightarrow> False | Some n \<Rightarrow> n \<noteq> 0)"

definition truthy_str :: "string option \<Rightarrow> bool" where
  "truthy_str x = (case x of None \<Rightarrow> False | Some s \<Rightarrow> s \<noteq> [])"

text \<open>\<^verbatim>\<open>s.startsWith(sub)\<close> and \<^verbatim>\<open>s.includes(sub)\<close>.\<close>

definition startsWith :: "string \<Rightarrow> string \<Rightarrow> bool" where
  "startsWith s sub = (take (length sub) s = sub)"

fun str_includes :: "string \<Rightarrow> string \<Rightarrow> bool" where
  "str_includes [] sub = (sub = [])"
| "str_includes (c # cs) sub = (startsWith (c # cs) sub \<or> str_includes cs sub)"

text \<open>
  A thrown value. The fields the cache reads are \<^verbatim>\<open>isNzbdavFailure\<close>, \<^verbatim>\<open>message\<close>
  and \<^verbatim>\<open>code\<close>; an absent \<^verbatim>\<open>message\<close> or \<^verbatim>\<open>code\<close> is the empty string (the source
  reads \<^verbatim>\<open>error.message || ''\<close> and compares \<^verbatim>\<open>code\<close> with \<^verbatim>\<open>===\<close>). A thrown
  \<^verbatim>\<open>null\<close> or \<^verbatim>\<open>undefined\<close> is \<^term>\<open>None\<close>.
\<close>

record js_error =
  isNzbdavFailure :: bool
  message :: string
  code :: string

type_synonym thrown = "js_error option"

section \<open>The NZBDav stream cache and the negative cache\<close>

text \<open>
  The four shapes of object stored in \<^verbatim>\<open>nzbdavStreamCache\<close>, tagged by their
  \<^verbatim>\<open>status\<close> field:
  \<^verbatim>\<open>{status:'ready', data, expiresAt}\<close>, \<^verbatim>\<open>{status:'pending', promise}\<close>,
  \<^verbatim>\<open>{status:'failed', error, expiresAt}\<close> and
  \<^verbatim>\<open>{status:'timeout_pending', error, startedAt, expiresAt}\<close>.
  A promise is named by a number.
\<close>

datatype 'd cache_entry =
    Ready 'd "int option"
  | Pending nat
  | Failed js_error "int option"
  | Timeout_pending js_error int int

datatype entry_status = ready | pending | failed | timeout_pending

fun status :: "'d cache_entry \<Rightarrow> entry_status" where
  "status (Ready d e) = ready"
| "status (Pending p) = pending"
| "status (Failed err e) = failed"
| "status (Timeout_pending err s e) = timeout_pending"

fun expiresAt :: "'d cache_entry \<Rightarrow> int option" where
  "expiresAt (Ready d e) = e"
| "expiresAt (Pending p) = None"
| "expiresAt (Failed err e) = e"
| "expiresAt (Timeout_pending err s e) = Some e"

record negative_entry =
  failureReason :: string
  errorCode :: "string option"
  failedAt :: int
  neg_expiresAt :: int

text \<open>
  The module state: the two maps and the two configured lifetimes. Three further fields
  record what the asynchronous part of \<^verbatim>\<open>getOrCreateNzbdavStream\<close> does outside the
  module: the keys \<^verbatim>\<open>builder()\<close> was invoked for, in order, the promises created so
  far, and the promises whose builder has not settled yet, each with its key.
\<close>

record 'd world =
  nzbdavStreamCache :: "string \<rightharpoonup> 'd cache_entry"
  failedDownloadUrlCache :: "string \<rightharpoonup> negative_entry"
  NZBDAV_CACHE_TTL_MS :: int
  NEGATIVE_CACHE_TTL_MS :: int
  builder_calls :: "string list"
  next_promise :: nat
  in_flight :: "nat \<rightharpoonup> string"

definition DAY_MS :: int where
  "DAY_MS = 24 * 60 * 60 * 1000"

text \<open>
  \<^verbatim>\<open>reloadNzbdavCacheConfig\<close>: the arguments are \<^verbatim>\<open>Number(process.env...)\<close> for the two
  settings, \<^term>\<open>None\<close> when that is not a finite number. Settings are whole numbers
  here. Every operation below takes the value of \<^verbatim>\<open>Date.now()\<close> as its first argument
  and reads the clock once.
\<close>

definition reloadNzbdavCacheConfig :: "int option \<Rightarrow> int option \<Rightarrow> 'd world \<Rightarrow> 'd world" where
  "reloadNzbdavCacheConfig raw negativeRaw w =
     w\<lparr>NZBDAV_CACHE_TTL_MS :=
          (case raw of Some r \<Rightarrow> if r \<ge> 0 then r * 60 * 1000 else DAY_MS | None \<Rightarrow> DAY_MS),
        NEGATIVE_CACHE_TTL_MS :=
          (case negativeRaw of Some r \<Rightarrow> if r \<ge> 0 then r * 60 * 60 * 1000 else DAY_MS
           | None \<Rightarrow> DAY_MS)\<rparr>"

definition initial_world :: "int option \<Rightarrow> int option \<Rightarrow> 'd world" where
  "initial_world raw negativeRaw =
     reloadNzbdavCacheConfig raw negativeRaw
       \<lparr>nzbdavStreamCache = Map.empty, failedDownloadUrlCache = Map.empty,
        NZBDAV_CACHE_TTL_MS = DAY_MS, NEGATIVE_CACHE_TTL_MS = DAY_MS,
        builder_calls = [], next_promise = 0, in_flight = Map.empty\<rparr>"

text \<open>\<^verbatim>\<open>entry.expiresAt && entry.expiresAt <= now\<close>\<close>

definition is_expired :: "int \<Rightarrow> int option \<Rightarrow> bool" where
  "is_expired now e = (truthy_num e \<and> the e \<le> now)"

subsection \<open>Negative cache\<close>

definition cleanupNegativeCache :: "int \<Rightarrow> 'd world \<Rightarrow> 'd world" where
  "cleanupNegativeCache now w =
     (if NEGATIVE_CACHE_TTL_MS w \<le> 0 then w
      else w\<lparr>failedDownloadUrlCache :=
        (\<lambda>url. case failedDownloadUrlCache w url of
            None \<Rightarrow> None
          | Some entry \<Rightarrow>
              if is_expired now (Some (neg_expiresAt entry)) then None else Some entry)\<rparr>)"

definition isDownloadUrlFailed :: "int \<Rightarrow> string \<Rightarrow> 'd world \<Rightarrow> negative_entry option \<times> 'd world" where
  "isDownloadUrlFailed now downloadUrl w =
     (let w1 = cleanupNegativeCache now w in
      case failedDownloadUrlCache w1 downloadUrl of
        None \<Rightarrow> (None, w1)
      | Some entry \<Rightarrow>
          if is_expired now (Some (neg_expiresAt entry))
          then (None, w1\<lparr>failedDownloadUrlCache := (failedDownloadUrlCache w1)(downloadUrl := None)\<rparr>)
          else (Some entry, w1))"

definition markDownloadUrlFailed ::
  "int \<Rightarrow> string \<Rightarrow> string \<Rightarrow> string option \<Rightarrow> 'd world \<Rightarrow> 'd world" where
  "markDownloadUrlFailed now downloadUrl reason errCode w =
     (if NEGATIVE_CACHE_TTL_MS w \<le> 0 then w
      else w\<lparr>failedDownloadUrlCache := (failedDownloadUrlCache w)(downloadUrl \<mapsto>
        \<lparr>failureReason = reason, errorCode = errCode, failedAt = now,
         neg_expiresAt = now + NEGATIVE_CACHE_TTL_MS w\<rparr>)\<rparr>)"

subsection \<open>Resolution cache\<close>

definition cleanupNzbdavCache :: "int \<Rightarrow> 'd world \<Rightarrow> 'd world" where
  "cleanupNzbdavCache now w =
     (if NZBDAV_CACHE_TTL_MS w \<le> 0 then w
      else w\<lparr>nzbdavStreamCache :=
        (\<lambda>key. case nzbdavStreamCache w key of
            None \<Rightarrow> None
          | Some entry \<Rightarrow> if is_expired now (expiresAt entry) then None else Some entry)\<rparr>)"

definition TIMEOUT_PENDING_TTL_MS :: int where
  "TIMEOUT_PENDING_TTL_MS = 10 * 60 * 1000"

text \<open>\<^verbatim>\<open>error?.isNzbdavFailure\<close>\<close>

definition is_flagged_failure :: "thrown \<Rightarrow> bool" where
  "is_flagged_failure error = (case error of None \<Rightarrow> False | Some e \<Rightarrow> isNzbdavFailure e)"

definition isTimeoutError :: "thrown \<Rightarrow> bool" where
  "isTimeoutError error =
     (case error of
        None \<Rightarrow> False
      | Some e \<Rightarrow>
          str_includes (message e) ''Timeout'' \<or>
          str_includes (message e) ''timeout'' \<or>
          str_includes (message e) ''ETIMEDOUT'' \<or>
          str_includes (message e) ''ESOCKETTIMEDOUT'' \<or>
          code e = ''ETIMEDOUT'' \<or>
          code e = ''ESOCKETTIMEDOUT'')"

text \<open>
  \<^verbatim>\<open>getOrCreateNzbdavStream\<close> is an \<^verbatim>\<open>async\<close> function. It runs without interruption
  from its entry to \<^verbatim>\<open>await promise\<close>, and again from the moment the builder settles
  to its own return or throw; other callers run in between. The first stretch is
  \<open>getOrCreateNzbdavStream_call\<close>, the second \<open>getOrCreateNzbdavStream_settle\<close>.

  The first stretch ends in one of four ways: it returns the cached data, it returns the
  promise stored in a pending entry, it throws the cached error, or it has invoked
  \<^verbatim>\<open>builder()\<close>, stored a pending entry with the new promise, and awaits that promise.
\<close>

datatype 'd call_result =
    Return_data 'd
  | Return_promise nat
  | Throw js_error
  | Await nat

definition start_attempt :: "string \<Rightarrow> 'd world \<Rightarrow> 'd call_result \<times> 'd world" where
  "start_attempt cacheKey w =
     (let p = next_promise w in
      (Await p,
       w\<lparr>builder_calls := builder_calls w @ [cacheKey],
         next_promise := Suc p,
         in_flight := (in_flight w)(p \<mapsto> cacheKey),
         nzbdavStreamCache := (nzbdavStreamCache w)(cacheKey \<mapsto> Pending p)\<rparr>))"

definition getOrCreateNzbdavStream_call ::
  "int \<Rightarrow> string \<Rightarrow> 'd world \<Rightarrow> 'd call_result \<times> 'd world" where
  "getOrCreateNzbdavStream_call now cacheKey w =
     (let w1 = cleanupNzbdavCache now w in
      case nzbdavStreamCache w1 cacheKey of
        Some (Ready d e) \<Rightarrow> (Return_data d, w1)
      | Some (Pending p) \<Rightarrow> (Return_promise p, w1)
      | Some (Failed err e) \<Rightarrow> (Throw err, w1)
      | Some (Timeout_pending err s e) \<Rightarrow> start_attempt cacheKey w1
      | None \<Rightarrow> start_attempt cacheKey w1)"

text \<open>How the builder's promise settled: with the data, or with a thrown value.\<close>

datatype 'd outcome = Resolved 'd | Rejected thrown

definition ttl_expiry :: "int \<Rightarrow> 'd world \<Rightarrow> int option" where
  "ttl_expiry now w =
     (if NZBDAV_CACHE_TTL_MS w > 0 then Some (now + NZBDAV_CACHE_TTL_MS w) else None)"

definition getOrCreateNzbdavStream_settle ::
  "int \<Rightarrow> string \<Rightarrow> 'd outcome \<Rightarrow> 'd world \<Rightarrow> (thrown + 'd) \<times> 'd world" where
  "getOrCreateNzbdavStream_settle now cacheKey out w =
     (case out of
        Resolved d \<Rightarrow>
          (Inr d, w\<lparr>nzbdavStreamCache :=
                      (nzbdavStreamCache w)(cacheKey \<mapsto> Ready d (ttl_expiry now w))\<rparr>)
      | Rejected error \<Rightarrow>
          (Inl error,
           if is_flagged_failure error
           then w\<lparr>nzbdavStreamCache :=
                    (nzbdavStreamCache w)(cacheKey \<mapsto> Failed (the error) (ttl_expiry now w))\<rparr>
           else if isTimeoutError error
           then w\<lparr>nzbdavStreamCache :=
                    (nzbdavStreamCache w)(cacheKey \<mapsto>
                       Timeout_pending (the error) now (now + TIMEOUT_PENDING_TTL_MS))\<rparr>
           else w\<lparr>nzbdavStreamCache := (nzbdavStreamCache w)(cacheKey := None)\<rparr>))"

text \<open>
  The two exported operations that empty the cache by hand: \<^verbatim>\<open>clearNzbdavStreamCache\<close>
  removes every entry, \<^verbatim>\<open>clearNzbdavStreamCacheEntry\<close> removes the entry of one key and
  says whether there was one. Neither looks at the status of what it removes.
\<close>

definition clearNzbdavStreamCache :: "'d world \<Rightarrow> 'd world" where
  "clearNzbdavStreamCache w = w\<lparr>nzbdavStreamCache := Map.empty\<rparr>"

definition clearNzbdavStreamCacheEntry :: "string \<Rightarrow> 'd world \<Rightarrow> bool \<times> 'd world" where
  "clearNzbdavStreamCacheEntry cacheKey w =
     (case nzbdavStreamCache w cacheKey of
        Some e \<Rightarrow> (True, w\<lparr>nzbdavStreamCache := (nzbdavStreamCache w)(cacheKey := None)\<rparr>)
      | None \<Rightarrow> (False, w))"

text \<open>
  A run of the module is a sequence of events on the resolution cache: a caller enters
  \<^verbatim>\<open>getOrCreateNzbdavStream\<close> at some time; the builder behind an unsettled promise
  settles at some time and the awaiting call resumes; the expiry cleanup is called at some
  time; the whole cache is cleared; the entry of one key is cleared. The configured
  lifetimes stay as they are during a run.
\<close>

datatype 'd event =
    Call int string
  | Settle int nat "'d outcome"
  | Cleanup int
  | Clear
  | Clear_entry string

fun step :: "'d world \<Rightarrow> 'd event \<Rightarrow> 'd world" where
  "step w (Call now cacheKey) = snd (getOrCreateNzbdavStream_call now cacheKey w)"
| "step w (Settle now p out) =
     (case in_flight w p of
        None \<Rightarrow> w
      | Some cacheKey \<Rightarrow>
          (snd (getOrCreateNzbdavStream_settle now cacheKey out w))
            \<lparr>in_flight := (in_flight w)(p := None)\<rparr>)"
| "step w (Cleanup now) = cleanupNzbdavCache now w"
| "step w Clear = clearNzbdavStreamCache w"
| "step w (Clear_entry cacheKey) = snd (clearNzbdavStreamCacheEntry cacheKey w)"

definition run :: "'d world \<Rightarrow> 'd event list \<Rightarrow> 'd world" where
  "run w evs = foldl step w evs"




text \<open>
  Three thrown values: a flagged backend failure whose failure message mentions a timeout
  (the Completion Watcher builds \<^verbatim>\<open>[NZBDAV] NZB failed: \<close> followed by the backend's
  message), an unflagged timeout, and an unflagged error that is no timeout.
\<close>

definition flagged_timeout :: js_error where
  "flagged_timeout = \<lparr>isNzbdavFailure = True, message = ''[NZBDAV] NZB failed: Timeout'', code = ''''\<rparr>"

definition plain_timeout :: js_error where
  "plain_timeout = \<lparr>isNzbdavFailure = False, message = ''Request timeout'', code = ''''\<rparr>"

definition plain_error :: js_error where
  "plain_error = \<lparr>isNzbdavFailure = False, message = ''socket hang up'', code = ''ECONNRESET''\<rparr>"

section \<open>The completion watcher: the nzbdav2 WebSocket client\<close>

text \<open>\<^verbatim>\<open>a || b\<close> on strings that may be absent, and \<^verbatim>\<open>toLowerCase\<close> on ASCII.\<close>

definition js_or :: "string option \<Rightarrow> string option \<Rightarrow> string option" where
  "js_or a b = (if truthy_str a then a else b)"

definition lower_char :: "char \<Rightarrow> char" where
  "lower_char c =
     (case map_of (zip ''ABCDEFGHIJKLMNOPQRSTUVWXYZ'' ''abcdefghijklmnopqrstuvwxyz'') c of
        Some d \<Rightarrow> d
      | None \<Rightarrow> c)"

definition toLowerCase :: "string \<Rightarrow> string" where
  "toLowerCase s = map lower_char s"

text \<open>
  The history slot of a \<^verbatim>\<open>HistoryItemAdded\<close> event, with the spellings of each field that
  \<^verbatim>\<open>handleMessage\<close> reads.
\<close>

record slot =
  nzo_id :: "string option"
  nzoId :: "string option"
  NzoId :: "string option"
  slot_status :: "string option"
  Status :: "string option"
  fail_message :: "string option"
  failMessage :: "string option"
  FailMessage :: "string option"

text \<open>
  A received frame after the two \<^verbatim>\<open>JSON.parse\<close> calls: the frame is not JSON, or it is an
  object with a \<^verbatim>\<open>Topic\<close> and a \<^verbatim>\<open>Message\<close>; the message is a string that is not JSON,
  a value without fields (\<^verbatim>\<open>null\<close> and the like), or a slot object.
\<close>

datatype message_field = Bad_json | No_fields | Slot_object slot

datatype frame = Unparseable | Outer string message_field

text \<open>
  The error built for a failed job extends the thrown value by \<^verbatim>\<open>failureMessage\<close> and
  \<^verbatim>\<open>nzoId\<close>. A waiter's promise is unsettled, fulfilled with the slot, or rejected with
  such an error or with the plain error of the deadline.
\<close>

record nzbdav_failure = js_error +
  failureMessage :: string
  failed_nzoId :: string

datatype rejection = Flagged_failure nzbdav_failure | Plain_error js_error

datatype promise_state = Unsettled | Fulfilled slot | Rejected_with rejection

text \<open>
  A waiter \<^verbatim>\<open>{resolve, reject, timer}\<close>: the promise its two callbacks settle, and its
  deadline timer. An armed deadline timer knows its due time and, through its closure, the
  job id and the promise. Promises and timers are numbered in the order of their creation.
\<close>

record waiter =
  promise :: nat
  timer :: nat

record watcher =
  configured :: bool
  ws :: "nat option"
  sockets :: nat
  connected :: bool
  authenticated :: bool
  reconnectTimer :: "int option"
  reconnectDelay :: int
  waiters :: "string \<rightharpoonup> waiter"
  timers :: "nat \<rightharpoonup> (int \<times> string \<times> nat)"
  promises :: "nat \<rightharpoonup> promise_state"
  promise_count :: nat
  timer_count :: nat

definition MAX_RECONNECT_DELAY :: int where
  "MAX_RECONNECT_DELAY = 30000"

text \<open>The module as loaded; \<open>cfg\<close> says whether the URL and the API key are set.\<close>

definition initial_watcher :: "bool \<Rightarrow> watcher" where
  "initial_watcher cfg =
     \<lparr>configured = cfg, ws = None, sockets = 0, connected = False, authenticated = False,
      reconnectTimer = None, reconnectDelay = 1000, waiters = Map.empty, timers = Map.empty,
      promises = Map.empty, promise_count = 0, timer_count = 0\<rparr>"

text \<open>A promise settles once; settling it again changes nothing.\<close>

definition settle_promise :: "nat \<Rightarrow> promise_state \<Rightarrow> watcher \<Rightarrow> watcher" where
  "settle_promise p v w =
     (if promises w p = Some Unsettled then w\<lparr>promises := (promises w)(p \<mapsto> v)\<rparr> else w)"

definition LOG_PREFIX :: string where
  "LOG_PREFIX = ''[NZBDAV-WS]''"

definition handleMessage :: "frame \<Rightarrow> watcher \<Rightarrow> watcher" where
  "handleMessage raw w =
     (case raw of
        Unparseable \<Rightarrow> w
      | Outer topic msg \<Rightarrow>
          if topic \<noteq> ''ha'' then w
          else (case msg of
              Bad_json \<Rightarrow> w
            | No_fields \<Rightarrow> w
            | Slot_object slot \<Rightarrow>
                let job = js_or (nzo_id slot) (js_or (nzoId slot) (NzoId slot)) in
                if \<not> truthy_str job then w
                else
                  let j = the job;
                      status = toLowerCase
                        (the (js_or (slot_status slot) (js_or (Status slot) (Some ''''))))
                  in (case waiters w j of
                      None \<Rightarrow> w
                    | Some waiter \<Rightarrow>
                        let w1 = w\<lparr>timers := (timers w)(timer waiter := None),
                                    waiters := (waiters w)(j := None)\<rparr>
                        in if status = ''completed''
                           then settle_promise (promise waiter) (Fulfilled slot) w1
                           else if status = ''failed''
                           then
                             let fm = the (js_or (fail_message slot) (js_or (failMessage slot)
                                        (js_or (FailMessage slot) (Some ''Unknown NZBDav error''))))
                             in settle_promise (promise waiter)
                                  (Rejected_with (Flagged_failure
                                     \<lparr>isNzbdavFailure = True,
                                      message = ''[NZBDAV] NZB failed: '' @ fm,
                                      code = '''',
                                      failureMessage = fm,
                                      failed_nzoId = j\<rparr>))
                                  w1
                           else w1)))"

definition cleanup :: "watcher \<Rightarrow> watcher" where
  "cleanup w = w\<lparr>reconnectTimer := None, ws := None, connected := False, authenticated := False\<rparr>"

definition connect :: "watcher \<Rightarrow> watcher" where
  "connect w =
     (if \<not> configured w then w
      else let w1 = cleanup w in w1\<lparr>ws := Some (sockets w1), sockets := Suc (sockets w1)\<rparr>)"

definition init :: "watcher \<Rightarrow> watcher" where
  "init w = (if \<not> configured w then w else connect w)"

definition scheduleReconnect :: "watcher \<Rightarrow> watcher" where
  "scheduleReconnect w =
     (if reconnectTimer w \<noteq> None then w
      else w\<lparr>reconnectTimer := Some (reconnectDelay w),
             reconnectDelay := min (reconnectDelay w * 2) MAX_RECONNECT_DELAY\<rparr>)"

text \<open>
  The handlers that \<^verbatim>\<open>connect\<close> installs on the socket, and the reconnect timer's
  callback. \<open>reconnectTimer\<close> holds the delay the timer was armed with.
\<close>

definition on_open :: "watcher \<Rightarrow> watcher" where
  "on_open w = w\<lparr>connected := True, reconnectDelay := 1000\<rparr>"

definition on_message :: "frame \<Rightarrow> watcher \<Rightarrow> watcher" where
  "on_message data w = handleMessage data (w\<lparr>authenticated := True\<rparr>)"

definition on_close :: "watcher \<Rightarrow> watcher" where
  "on_close w = scheduleReconnect (w\<lparr>connected := False, authenticated := False, ws := None\<rparr>)"

definition reconnect_timer_fires :: "watcher \<Rightarrow> watcher" where
  "reconnect_timer_fires w =
     (case reconnectTimer w of
        None \<Rightarrow> w
      | Some d \<Rightarrow> connect (w\<lparr>reconnectTimer := None\<rparr>))"

text \<open>
  One failed connection attempt followed by the next attempt: the socket closes, which
  schedules the reconnect, and the reconnect timer fires.
\<close>

definition failed_attempt :: "watcher \<Rightarrow> watcher" where
  "failed_attempt w = reconnect_timer_fires (on_close w)"

text \<open>
  \<^verbatim>\<open>waitForHistoryEvent\<close> at time \<open>now\<close>: a new promise, a new deadline timer, and the
  waiter stored under the job id. The result is the promise and the new state.
\<close>

definition waitForHistoryEvent :: "string \<Rightarrow> int \<Rightarrow> int \<Rightarrow> watcher \<Rightarrow> nat \<times> watcher" where
  "waitForHistoryEvent job timeoutMs now w =
     (let p = promise_count w; t = timer_count w in
      (p, w\<lparr>promise_count := Suc p, timer_count := Suc t,
            promises := (promises w)(p \<mapsto> Unsettled),
            timers := (timers w)(t \<mapsto> (now + timeoutMs, job, p)),
            waiters := (waiters w)(job \<mapsto> \<lparr>promise = p, timer = t\<rparr>)\<rparr>))"

text \<open>The deadline timer's callback; a cleared timer never fires.\<close>

definition waiter_timer_fires :: "nat \<Rightarrow> watcher \<Rightarrow> watcher" where
  "waiter_timer_fires t w =
     (case timers w t of
        None \<Rightarrow> w
      | Some (due, job, p) \<Rightarrow>
          settle_promise p
            (Rejected_with (Plain_error
               \<lparr>isNzbdavFailure = False,
                message = LOG_PREFIX @ '' Timeout waiting for WS event for '' @ job,
                code = ''''\<rparr>))
            (w\<lparr>timers := (timers w)(t := None), waiters := (waiters w)(job := None)\<rparr>))"

definition cancelWaiter :: "string \<Rightarrow> watcher \<Rightarrow> watcher" where
  "cancelWaiter job w =
     (case waiters w job of
        None \<Rightarrow> w
      | Some waiter \<Rightarrow>
          w\<lparr>timers := (timers w)(timer waiter := None), waiters := (waiters w)(job := None)\<rparr>)"

text \<open>A slot with only a job id and a status.\<close>

definition status_event :: "string \<Rightarrow> string \<Rightarrow> frame" where
  "status_event job st =
     Outer ''ha'' (Slot_object
       \<lparr>nzo_id = Some job, nzoId = None, NzoId = None, slot_status = Some st, Status = None,
        fail_message = None, failMessage = None, FailMessage = None\<rparr>)"

text \<open>A connected watcher with one waiter, registered at time 0 for job \<^verbatim>\<open>J\<close>.\<close>

definition watching :: watcher where
  "watching = snd (waitForHistoryEvent ''J'' 80000 0 (init (initial_watcher True)))"

section \<open>JavaScript numbers: binary64 arithmetic\<close>

text \<open>
  A JavaScript number is represented by its exact value, a rational. Every arithmetic
  operation of the source (\<^verbatim>\<open>/\<close>, \<^verbatim>\<open>+\<close>, \<^verbatim>\<open>-\<close>) and every decimal literal gives the
  exact result rounded to binary64: to the nearest number with a 53-bit significand, ties
  to the even significand, with gradual underflow below \<open>2\<^sup>-\<^sup>1\<^sup>0\<^sup>2\<^sup>2\<close>. Comparisons,
  \<^verbatim>\<open>Math.min\<close> and \<^verbatim>\<open>Math.max\<close> are exact. \<^verbatim>\<open>NaN\<close>, the infinities and the negative zero
  have no representation here; the operations modelled below never produce them, their
  results lying between \<open>-0.2\<close> and \<open>1.1\<close>.
\<close>

definition pow2 :: "int \<Rightarrow> rat" where
  "pow2 e = (if e \<ge> 0 then 2 ^ nat e else 1 / 2 ^ nat (- e))"

text \<open>The quotient \<open>n / d\<close> rounded to the nearest integer, ties to even.\<close>

definition rne_div :: "int \<Rightarrow> int \<Rightarrow> int" where
  "rne_div n d =
     (let q = n div d; r = n mod d in
      if 2 * r < d then q else if 2 * r > d then q + 1 else if even q then q else q + 1)"

text \<open>
  For positive \<open>n\<close> and \<open>d\<close>, the integer \<open>b\<close> with \<open>2\<^sup>b \<le> n / d < 2\<^sup>b\<^sup>+\<^sup>1\<close>, and the
  exponent of the unit in the last place of the binary64 numbers near \<open>n / d\<close>.
\<close>

definition binade :: "int \<Rightarrow> int \<Rightarrow> int" where
  "binade n d =
     (let k = bitlen n - bitlen d in
      if (if k \<ge> 0 then d * 2 ^ nat k \<le> n else d \<le> n * 2 ^ nat (- k)) then k else k - 1)"

definition exponent64 :: "int \<Rightarrow> int \<Rightarrow> int" where
  "exponent64 n d = max (binade n d - 52) (- 1074)"

text \<open>The binary64 number nearest to \<open>n / d\<close>, for \<open>n \<ge> 0\<close> and \<open>d > 0\<close>.\<close>

definition round_frac :: "int \<Rightarrow> int \<Rightarrow> rat" where
  "round_frac n d =
     (if n = 0 then 0
      else
        let e = exponent64 n d;
            m = (if e \<ge> 0 then rne_div n (d * 2 ^ nat e) else rne_div (n * 2 ^ nat (- e)) d)
        in of_int m * pow2 e)"

definition round64 :: "rat \<Rightarrow> rat" where
  "round64 x =
     (case quotient_of x of (n, d) \<Rightarrow>
        if n < 0 then - round_frac (- n) d else round_frac n d)"

section \<open>Smart history matching\<close>

subsection \<open>Strings and the regular expressions of \<^verbatim>\<open>parseReleaseTokens\<close>\<close>

text \<open>Whitespace for \<^verbatim>\<open>trim\<close> and \<^verbatim>\<open>\s\<close>, within ASCII.\<close>

definition is_space :: "char \<Rightarrow> bool" where
  "is_space c = (c \<in> set [CHR '' '', CHR 0x09, CHR 0x0A, CHR 0x0B, CHR 0x0C, CHR 0x0D])"

definition trim :: "string \<Rightarrow> string" where
  "trim s = rev (dropWhile is_space (rev (dropWhile is_space s)))"

definition is_digit :: "char \<Rightarrow> bool" where
  "is_digit c = (c \<in> set ''0123456789'')"

definition is_letter :: "char \<Rightarrow> bool" where
  "is_letter c = (lower_char c \<in> set ''abcdefghijklmnopqrstuvwxyz'')"

text \<open>\<^verbatim>\<open>/^\d+$/.test(s)\<close>\<close>

definition all_digits :: "string \<Rightarrow> bool" where
  "all_digits s = (s \<noteq> [] \<and> list_all is_digit s)"

definition endsWith :: "string \<Rightarrow> string \<Rightarrow> bool" where
  "endsWith s suf = (length suf \<le> length s \<and> drop (length s - length suf) s = suf)"

text \<open>\<^verbatim>\<open>.replace(/\.(nzb|zip|rar|mkv|avi|mp4)$/i, '')\<close>\<close>

definition strip_extension :: "string \<Rightarrow> string" where
  "strip_extension s =
     (if list_ex (endsWith (toLowerCase s)) [''.nzb'', ''.zip'', ''.rar'', ''.mkv'', ''.avi'', ''.mp4'']
      then take (length s - 4) s else s)"

text \<open>
  \<^verbatim>\<open>.replace(/[...]+/g, ' ')\<close>: every maximal run of characters of the class becomes one
  space. The flag says that the previous character belonged to the run.
\<close>

fun replace_runs :: "(char \<Rightarrow> bool) \<Rightarrow> bool \<Rightarrow> string \<Rightarrow> string" where
  "replace_runs P in_run [] = []"
| "replace_runs P in_run (c # cs) =
     (if P c then (if in_run then replace_runs P True cs else CHR '' '' # replace_runs P True cs)
      else c # replace_runs P False cs)"

text \<open>\<^verbatim>\<open>.replace(/[...]/g, ' ')\<close>: every character of the class becomes a space.\<close>

definition replace_each :: "(char \<Rightarrow> bool) \<Rightarrow> string \<Rightarrow> string" where
  "replace_each P s = map (\<lambda>c. if P c then CHR '' '' else c) s"

definition is_separator :: "char \<Rightarrow> bool" where
  "is_separator c = (c \<in> set ''._-'')"

definition is_bracket :: "char \<Rightarrow> bool" where
  "is_bracket c = (c \<in> set ''()[]{}'')"

text \<open>\<^verbatim>\<open>s.split(' ')\<close>: the empty string gives one empty token.\<close>

fun split_space :: "string \<Rightarrow> string list" where
  "split_space [] = [[]]"
| "split_space (c # cs) =
     (if c = CHR '' '' then [] # split_space cs
      else (case split_space cs of
              [] \<Rightarrow> [[c]]
            | t # ts \<Rightarrow> (c # t) # ts))"

definition normalize_separators :: "string \<Rightarrow> string" where
  "normalize_separators raw =
     trim (replace_runs is_space False
       (replace_each is_bracket (replace_runs is_separator False (strip_extension raw))))"

text \<open>\<^verbatim>\<open>/^(19|20)\d{2}$/.test(token)\<close>\<close>

definition is_year :: "string \<Rightarrow> bool" where
  "is_year token =
     (length token = 4 \<and> (take 2 token = ''19'' \<or> take 2 token = ''20'') \<and>
      list_all is_digit (drop 2 token))"

text \<open>\<^verbatim>\<open>/^(480|576|720|1080|2160)[pi]?$/i.test(lower)\<close> on a lower-case string\<close>

definition is_resolution :: "string \<Rightarrow> bool" where
  "is_resolution lower =
     (let heights = [''480'', ''576'', ''720'', ''1080'', ''2160''] in
      lower \<in> set heights \<or>
      (lower \<noteq> [] \<and> last lower \<in> set ''pi'' \<and> butlast lower \<in> set heights))"

text \<open>\<^verbatim>\<open>lower.replace(/[pi]$/, 'p')\<close>\<close>

definition resolution_name :: "string \<Rightarrow> string" where
  "resolution_name lower =
     (if lower \<noteq> [] \<and> last lower \<in> set ''pi'' then butlast lower @ ''p'' else lower)"

definition QUALITY_TOKENS :: "string list" where
  "QUALITY_TOKENS =
     [''480p'', ''576p'', ''720p'', ''1080p'', ''1080i'', ''2160p'', ''4k'', ''uhd'',
      ''bluray'', ''bdrip'', ''brrip'', ''dvdrip'', ''dvdscr'', ''hdtv'', ''pdtv'', ''sdtv'',
      ''webrip'', ''web-dl'', ''webdl'', ''web'', ''hdrip'', ''hdcam'', ''cam'', ''ts'', ''tc'',
      ''screener'', ''scr'', ''r5'', ''dvd'', ''bd'', ''remux'',
      ''x264'', ''x265'', ''h264'', ''h265'', ''hevc'', ''avc'', ''xvid'', ''divx'', ''mpeg'',
      ''hdr'', ''hdr10'', ''hdr10+'', ''dv'', ''dolby'', ''vision'', ''hlg'',
      ''aac'', ''ac3'', ''dts'', ''dts-hd'', ''truehd'', ''atmos'', ''flac'', ''mp3'', ''dd5'',
      ''ddp5'',
      ''3d'', ''hsbs'', ''hou'', ''sbs'',
      ''proper'', ''repack'', ''rerip'', ''internal'', ''extended'', ''unrated'', ''directors'',
      ''cut'', ''dubbed'', ''dual'', ''multi'', ''subbed'', ''hardcoded'', ''hc'']"

definition LANGUAGE_TOKENS :: "string list" where
  "LANGUAGE_TOKENS =
     [''english'', ''eng'', ''en'', ''french'', ''fr'', ''german'', ''de'', ''spanish'', ''es'',
      ''italian'', ''ita'', ''it'', ''dutch'', ''nl'', ''portuguese'', ''pt'', ''russian'', ''ru'',
      ''japanese'', ''jp'', ''korean'', ''kr'', ''chinese'', ''cn'', ''hindi'', ''hin'',
      ''nordic'', ''swedish'', ''danish'', ''norwegian'', ''finnish'']"

definition SOURCE_NAMES :: "string list" where
  "SOURCE_NAMES =
     [''bluray'', ''bdrip'', ''brrip'', ''dvdrip'', ''webrip'', ''web-dl'', ''webdl'', ''web'',
      ''hdtv'', ''remux'']"

definition CODEC_NAMES :: "string list" where
  "CODEC_NAMES = [''x264'', ''x265'', ''h264'', ''h265'', ''hevc'', ''avc'', ''xvid'', ''divx'']"

subsection \<open>\<^verbatim>\<open>parseReleaseTokens\<close>\<close>

record parsed =
  titleWords :: "string list"
  year :: "string option"
  resolution :: "string option"
  source :: "string option"
  codec :: "string option"
  group :: "string option"
  raw :: string

text \<open>The variables of the token loop: the fields being filled, and the marker flag.\<close>

record parse_state = parsed +
  foundQualityMarker :: bool

text \<open>
  One round of the loop, for a token and the fact whether its index is the last. The first
  five branches end in \<^verbatim>\<open>continue\<close>; only the last one reaches the release-group test at
  the bottom of the loop body.
\<close>

definition title_word :: "string \<Rightarrow> parse_state \<Rightarrow> parse_state" where
  "title_word token st =
     (let lower = toLowerCase token in
      if length token > 1 \<and> \<not> all_digits token
      then st\<lparr>titleWords := titleWords st @ [lower]\<rparr>
      else if length token = 1 \<and> list_ex is_letter token
      then st\<lparr>titleWords := titleWords st @ [lower]\<rparr>
      else if all_digits token \<and> length token \<le> 2
      then st\<lparr>titleWords := titleWords st @ [lower]\<rparr>
      else st)"

definition parse_token :: "string \<Rightarrow> bool \<Rightarrow> parse_state \<Rightarrow> parse_state" where
  "parse_token token is_last st =
     (let lower = toLowerCase token in
      if \<not> truthy_str (year st) \<and> is_year token
      then st\<lparr>year := Some token, foundQualityMarker := True\<rparr>
      else if \<not> truthy_str (resolution st) \<and> is_resolution lower
      then st\<lparr>resolution := Some (resolution_name lower), foundQualityMarker := True\<rparr>
      else if \<not> truthy_str (resolution st) \<and> (lower = ''4k'' \<or> lower = ''uhd'')
      then st\<lparr>resolution := Some ''2160p'', foundQualityMarker := True\<rparr>
      else if lower \<in> set QUALITY_TOKENS
      then st\<lparr>foundQualityMarker := True,
              source := (if \<not> truthy_str (source st) \<and> lower \<in> set SOURCE_NAMES
                         then Some lower else source st),
              codec := (if \<not> truthy_str (codec st) \<and> lower \<in> set CODEC_NAMES
                        then Some lower else codec st)\<rparr>
      else if lower \<in> set LANGUAGE_TOKENS
      then st
      else
        let st1 = (if \<not> foundQualityMarker st then title_word token st else st) in
        if is_last \<and> lower \<notin> set QUALITY_TOKENS \<and> lower \<notin> set LANGUAGE_TOKENS
        then st1\<lparr>group := Some lower\<rparr>
        else st1)"

fun parse_loop :: "string list \<Rightarrow> parse_state \<Rightarrow> parse_state" where
  "parse_loop [] st = st"
| "parse_loop (token # rest) st = parse_loop rest (parse_token token (rest = []) st)"

definition tokens_of :: "string \<Rightarrow> string list" where
  "tokens_of title = split_space (normalize_separators (trim title))"

definition parse_start :: "string \<Rightarrow> parse_state" where
  "parse_start title =
     \<lparr>titleWords = [], year = None, resolution = None, source = None, codec = None,
      group = None, raw = trim title, foundQualityMarker = False\<rparr>"

definition parseReleaseTokens :: "string \<Rightarrow> parsed" where
  "parseReleaseTokens title =
     (if title = []
      then \<lparr>titleWords = [], year = None, resolution = None, source = None, codec = None,
            group = None, raw = []\<rparr>
      else parsed.truncate (parse_loop (tokens_of title) (parse_start title)))"

definition extractCoreTitleWords :: "string \<Rightarrow> string list" where
  "extractCoreTitleWords title = titleWords (parseReleaseTokens title)"

subsection \<open>Similarity\<close>

text \<open>
  Scores are JavaScript numbers: the division, the addition of \<^verbatim>\<open>0.1\<close> and the
  subtraction of \<^verbatim>\<open>0.2\<close> round to binary64, and so do the literals. The two counts are
  small whole numbers, which are exact. \<^verbatim>\<open>new Set(words)\<close> is the list without
  repetitions.
\<close>

definition calculateWordSimilarity :: "string list \<Rightarrow> string list \<Rightarrow> rat" where
  "calculateWordSimilarity words1 words2 =
     (if words1 = [] \<or> words2 = [] then 0
      else
        let set1 = remdups words1;
            set2 = remdups words2;
            intersection = length (filter (\<lambda>word. word \<in> set set2) set1);
            union = length set1 + length set2 - intersection
        in if union > 0 then round64 (of_nat intersection / of_nat union) else 0)"

record release_similarity =
  score :: rat
  titleMatch :: bool
  yearMatch :: bool
  yearMismatch :: bool
  allWords1InWords2 :: bool
  allWords2InWords1 :: bool
  titleSimilarity :: rat
  words1 :: "string list"
  words2 :: "string list"

definition calculateReleaseSimilarity :: "'a parsed_scheme \<Rightarrow> 'b parsed_scheme \<Rightarrow> release_similarity" where
  "calculateReleaseSimilarity parsed1 parsed2 =
     (let titleSim = calculateWordSimilarity (titleWords parsed1) (titleWords parsed2);
          yMatch = (truthy_str (year parsed1) \<and> truthy_str (year parsed2) \<and>
                     year parsed1 = year parsed2);
          yMismatch = (truthy_str (year parsed1) \<and> truthy_str (year parsed2) \<and>
                        year parsed1 \<noteq> year parsed2);
          score0 = titleSim;
          score1 = (if yMatch then min 1 (round64 (score0 + round64 (1 / 10))) else score0);
          score2 = (if yMismatch then max 0 (round64 (score1 - round64 (2 / 10))) else score1);
          all12 = (titleWords parsed1 \<noteq> [] \<and>
                   list_all (\<lambda>w. w \<in> set (titleWords parsed2)) (titleWords parsed1));
          all21 = (titleWords parsed2 \<noteq> [] \<and>
                   list_all (\<lambda>w. w \<in> set (titleWords parsed1)) (titleWords parsed2))
      in \<lparr>score = score2,
          titleMatch = (titleSim \<ge> round64 (8 / 10) \<or> all12 \<or> all21),
          yearMatch = yMatch,
          yearMismatch = yMismatch,
          allWords1InWords2 = all12,
          allWords2InWords1 = all21,
          titleSimilarity = titleSim,
          words1 = titleWords parsed1,
          words2 = titleWords parsed2\<rparr>)"

text \<open>
  The Jaccard similarity of two finite sets, as the specification names it: the size of
  the intersection over the size of the union, and 0 when the union is empty. This is the
  exact ratio; the source's score starts from its binary64 rounding.
\<close>

definition jaccard :: "'a set \<Rightarrow> 'a set \<Rightarrow> rat" where
  "jaccard A B = (if A \<union> B = {} then 0 else of_nat (card (A \<inter> B)) / of_nat (card (A \<union> B)))"

subsection \<open>\<^verbatim>\<open>findMatchingHistoryItems\<close>\<close>

record history_entry =
  jobName :: "string option"

record options =
  minSimilarity :: rat
  requireAllWords :: bool
  debug :: bool

definition default_options :: options where
  "default_options = \<lparr>minSimilarity = round64 (6 / 10), requireAllWords = False, debug = False\<rparr>"

record 'e match =
  entry :: 'e
  normalizedTitle :: string
  similarity :: rat
  details :: release_similarity

text \<open>\<^verbatim>\<open>entry.jobName || normalizedTitle\<close>\<close>

definition history_title :: "string \<Rightarrow> 'a history_entry_scheme \<Rightarrow> string" where
  "history_title normTitle e = (if truthy_str (jobName e) then the (jobName e) else normTitle)"

definition isMatch :: "options \<Rightarrow> release_similarity \<Rightarrow> bool" where
  "isMatch opts sim =
     (if requireAllWords opts then allWords1InWords2 sim
      else score sim \<ge> minSimilarity opts \<or> allWords1InWords2 sim \<or> allWords2InWords1 sim)"

definition match_of ::
  "parsed \<Rightarrow> string \<times> 'a history_entry_scheme \<Rightarrow> 'a history_entry_scheme match" where
  "match_of searchParsed item =
     (let sim = calculateReleaseSimilarity searchParsed
                  (parseReleaseTokens (history_title (fst item) (snd item)))
      in \<lparr>entry = snd item, normalizedTitle = fst item, similarity = score sim, details = sim\<rparr>)"

text \<open>
  \<^verbatim>\<open>matches.sort((a, b) => b.similarity - a.similarity)\<close>: a stable sort by descending
  score (the difference of two different binary64 numbers is never rounded to zero).
\<close>

definition sort_descending :: "'e match list \<Rightarrow> 'e match list" where
  "sort_descending ms = sort_key (\<lambda>m. - similarity m) ms"

text \<open>
  The history map is a \<^verbatim>\<open>Map\<close> from normalized title to entry, iterated in insertion
  order: a list of pairs.
\<close>

definition findMatchingHistoryItems ::
  "string \<Rightarrow> (string \<times> 'a history_entry_scheme) list \<Rightarrow> options
     \<Rightarrow> 'a history_entry_scheme match list" where
  "findMatchingHistoryItems searchTitle historyMap opts =
     (if searchTitle = [] \<or> historyMap = [] then []
      else
        let searchParsed = parseReleaseTokens searchTitle in
        if titleWords searchParsed = [] then []
        else sort_descending
               (filter (\<lambda>m. isMatch opts (details m)) (map (match_of searchParsed) historyMap)))"

subsection \<open>Auxiliary notions for the statements about the release group\<close>

text \<open>The rounds of the token loop for tokens that are not at the last index.\<close>

definition parse_earlier :: "string list \<Rightarrow> parse_state \<Rightarrow> parse_state" where
  "parse_earlier toks st = foldl (\<lambda>s token. parse_token token False s) st toks"

text \<open>
  The release group as the specification words it: the final token of the title that is not
  a quality token.
\<close>

definition final_non_quality_token :: "string list \<Rightarrow> string option" where
  "final_non_quality_token toks =
     (case filter (\<lambda>t. toLowerCase t \<notin> set QUALITY_TOKENS) toks of
        [] \<Rightarrow> None
      | t # ts \<Rightarrow> Some (last (t # ts)))"

section \<open>The persistent instant cache\<close>

text \<open>
  \<^verbatim>\<open>INSTANT_CACHE_TTL_MS\<close>, computed once from \<^verbatim>\<open>Number(process.env.INSTANT_CACHE_TTL_DAYS)\<close>;
  the argument is \<^term>\<open>None\<close> when that is not a finite number, and a whole number of
  days otherwise.
\<close>

definition INSTANT_CACHE_TTL_MS :: "int option \<Rightarrow> int" where
  "INSTANT_CACHE_TTL_MS days =
     (case days of
        Some r \<Rightarrow> if r > 0 then r * 24 * 60 * 60 * 1000 else 7 * 24 * 60 * 60 * 1000
      | None \<Rightarrow> 7 * 24 * 60 * 60 * 1000)"

text \<open>A number in a template string, for whole numbers.\<close>

fun string_of_nat :: "nat \<Rightarrow> string" where
  "string_of_nat n =
     (if n < 10 then [''0123456789'' ! n]
      else string_of_nat (n div 10) @ [''0123456789'' ! (n mod 10)])"

definition string_of_int :: "int \<Rightarrow> string" where
  "string_of_int i = (if i < 0 then CHR ''-'' # string_of_nat (nat (- i)) else string_of_nat (nat i))"

text \<open>A requested episode; a field that is not a finite number is \<^term>\<open>None\<close>.\<close>

record requested_episode =
  season :: "int option"
  episode :: "int option"

definition buildInstantCacheKey :: "string \<Rightarrow> string \<Rightarrow> requested_episode option \<Rightarrow> string" where
  "buildInstantCacheKey type ident requestedEpisode =
     (case requestedEpisode of
        None \<Rightarrow> type @ '':'' @ ident
      | Some ep \<Rightarrow>
          (case (season ep, episode ep) of
             (Some s, Some e) \<Rightarrow>
               type @ '':'' @ ident @ '':'' @ ''S'' @ string_of_int s @ ''E'' @ string_of_int e
           | _ \<Rightarrow> type @ '':'' @ ident))"

record 'a instant_entry =
  entryData :: 'a
  cachedAt :: "int option"

text \<open>
  The module state: the cache object (\<^term>\<open>None\<close> until it is loaded), the content of the
  cache file (\<^term>\<open>None\<close> when there is no readable file), and the configured number of
  days.
\<close>

record 'a instant_state =
  instantCache :: "(string \<rightharpoonup> 'a instant_entry) option"
  cache_file :: "(string \<rightharpoonup> 'a instant_entry) option"
  INSTANT_CACHE_TTL_DAYS :: "int option"

definition initial_instant :: "int option \<Rightarrow> 'a instant_state" where
  "initial_instant days =
     \<lparr>instantCache = None, cache_file = None, INSTANT_CACHE_TTL_DAYS = days\<rparr>"

definition loadInstantCache :: "'a instant_state \<Rightarrow> 'a instant_state" where
  "loadInstantCache s =
     s\<lparr>instantCache := Some (case cache_file s of Some f \<Rightarrow> f | None \<Rightarrow> Map.empty)\<rparr>"

definition saveInstantCache :: "'a instant_state \<Rightarrow> 'a instant_state" where
  "saveInstantCache s = s\<lparr>cache_file := instantCache s\<rparr>"

definition getInstantCache :: "'a instant_state \<Rightarrow> 'a instant_state" where
  "getInstantCache s = (if instantCache s = None then loadInstantCache s else s)"

definition getInstantCacheEntry ::
  "int \<Rightarrow> string \<Rightarrow> string \<Rightarrow> requested_episode option \<Rightarrow> 'a instant_state
     \<Rightarrow> 'a instant_entry option \<times> 'a instant_state" where
  "getInstantCacheEntry now type ident requestedEpisode s =
     (let s1 = getInstantCache s;
          cache = the (instantCache s1);
          key = buildInstantCacheKey type ident requestedEpisode
      in case cache key of
           None \<Rightarrow> (None, s1)
         | Some ent \<Rightarrow>
             if truthy_num (cachedAt ent) \<and> INSTANT_CACHE_TTL_MS (INSTANT_CACHE_TTL_DAYS s1) > 0 \<and>
                now - the (cachedAt ent) > INSTANT_CACHE_TTL_MS (INSTANT_CACHE_TTL_DAYS s1)
             then (None, saveInstantCache (s1\<lparr>instantCache := Some (cache(key := None))\<rparr>))
             else (Some ent, s1))"

definition setInstantCacheEntry ::
  "int \<Rightarrow> string \<Rightarrow> string \<Rightarrow> requested_episode option \<Rightarrow> 'a \<Rightarrow> 'a instant_state
     \<Rightarrow> 'a instant_state" where
  "setInstantCacheEntry now type ident requestedEpisode dat s =
     (let s1 = getInstantCache s;
          cache = the (instantCache s1);
          key = buildInstantCacheKey type ident requestedEpisode
      in saveInstantCache
           (s1\<lparr>instantCache := Some (cache(key \<mapsto> \<lparr>entryData = dat, cachedAt = Some now\<rparr>))\<rparr>))"

text \<open>
  The state of a module configured with \<^verbatim>\<open>INSTANT_CACHE_TTL_DAYS=0\<close> after one entry
  was stored at time 1000.
\<close>

definition zero_days_cache :: "nat instant_state" where
  "zero_days_cache = setInstantCacheEntry 1000 ''movie'' ''tt0133093'' None 7 (initial_instant (Some 0))"

section \<open>Properties of the resolution cache\<close>

lemma cleanup_other_fields:
  "builder_calls (cleanupNzbdavCache now w) = builder_calls w"
  "next_promise (cleanupNzbdavCache now w) = next_promise w"
  "in_flight (cleanupNzbdavCache now w) = in_flight w"
  "NZBDAV_CACHE_TTL_MS (cleanupNzbdavCache now w) = NZBDAV_CACHE_TTL_MS w"
  by (simp_all add: cleanupNzbdavCache_def)




lemma cleanup_keeps_unexpired:
  assumes "nzbdavStreamCache w key = Some ent" and "\<not> is_expired now (expiresAt ent)"
  shows "nzbdavStreamCache (cleanupNzbdavCache now w) key = Some ent"
  using assms by (simp add: cleanupNzbdavCache_def)

lemma cleanup_entry_cases:
  "nzbdavStreamCache (cleanupNzbdavCache now w) key = None \<or>
   nzbdavStreamCache (cleanupNzbdavCache now w) key = nzbdavStreamCache w key"
  by (simp add: cleanupNzbdavCache_def split: option.splits)

lemma start_attempt_result:
  "fst (start_attempt cacheKey w) = Await (next_promise w)"
  "builder_calls (snd (start_attempt cacheKey w)) = builder_calls w @ [cacheKey]"
  "nzbdavStreamCache (snd (start_attempt cacheKey w)) cacheKey = Some (Pending (next_promise w))"
  by (simp_all add: start_attempt_def Let_def)

lemma call_starts_attempt:
  assumes "nzbdavStreamCache w cacheKey = None \<or>
           (\<exists>err s e. nzbdavStreamCache w cacheKey = Some (Timeout_pending err s e))"
  shows "fst (getOrCreateNzbdavStream_call now cacheKey w) = Await (next_promise w) \<and>
         builder_calls (snd (getOrCreateNzbdavStream_call now cacheKey w))
           = builder_calls w @ [cacheKey] \<and>
         nzbdavStreamCache (snd (getOrCreateNzbdavStream_call now cacheKey w)) cacheKey
           = Some (Pending (next_promise w))"
proof -
  let ?w1 = "cleanupNzbdavCache now w"
  have "nzbdavStreamCache ?w1 cacheKey = None \<or>
        (\<exists>err s e. nzbdavStreamCache ?w1 cacheKey = Some (Timeout_pending err s e))"
    using assms cleanup_entry_cases [of now w cacheKey] by auto
  then have "getOrCreateNzbdavStream_call now cacheKey w = start_attempt cacheKey ?w1"
    by (auto simp: getOrCreateNzbdavStream_call_def Let_def)
  then show ?thesis
    by (simp add: start_attempt_result cleanup_other_fields)
qed


lemma settle_other_fields:
  "next_promise (snd (getOrCreateNzbdavStream_settle now k out w)) = next_promise w"
  "in_flight (snd (getOrCreateNzbdavStream_settle now k out w)) = in_flight w"
  "builder_calls (snd (getOrCreateNzbdavStream_settle now k out w)) = builder_calls w"
  by (simp_all add: getOrCreateNzbdavStream_settle_def split: outcome.splits)





subsection \<open>The promise of a pending entry is unsettled, in every run\<close>








subsection \<open>Without clear operations there is one unsettled promise per key\<close>










text \<open>
  C2 (amended). Error-path transitions of the resolution cache. A call for a key whose
  entry is failed and not yet expired re-raises the cached error and invokes no builder.
  A resolution that fails with a timeout error that is not a flagged backend failure sets
  the entry to timeout_pending, with the error, the time and an expiry ten minutes later.
  A call for a key whose entry is timeout_pending starts a new attempt: the builder is
  invoked once more and the entry becomes pending with the new promise. A resolution that
  fails with a flagged backend failure sets the entry to failed, with the error and the
  expiry of the configured lifetime, whether or not the error is a timeout error.
\<close>

theorem error_path_transitions:
  "(nzbdavStreamCache w cacheKey = Some (Failed err e) \<and> \<not> is_expired now e \<longrightarrow>
      fst (getOrCreateNzbdavStream_call now cacheKey w) = Throw err \<and>
      builder_calls (snd (getOrCreateNzbdavStream_call now cacheKey w)) = builder_calls w) \<and>
   (isTimeoutError error \<and> \<not> is_flagged_failure error \<longrightarrow>
      nzbdavStreamCache (snd (getOrCreateNzbdavStream_settle now cacheKey (Rejected error) w)) cacheKey
        = Some (Timeout_pending (the error) now (now + TIMEOUT_PENDING_TTL_MS))) \<and>
   (nzbdavStreamCache w cacheKey = Some (Timeout_pending err s t) \<longrightarrow>
      fst (getOrCreateNzbdavStream_call now cacheKey w) = Await (next_promise w) \<and>
      builder_calls (snd (getOrCreateNzbdavStream_call now cacheKey w))
        = builder_calls w @ [cacheKey] \<and>
      nzbdavStreamCache (snd (getOrCreateNzbdavStream_call now cacheKey w)) cacheKey
        = Some (Pending (next_promise w))) \<and>
   (is_flagged_failure error \<longrightarrow>
      nzbdavStreamCache (snd (getOrCreateNzbdavStream_settle now cacheKey (Rejected error) w)) cacheKey
        = Some (Failed (the error) (ttl_expiry now w)))"
proof (intro conjI impI)
  assume "is_flagged_failure error"
  then show "nzbdavStreamCache (snd (getOrCreateNzbdavStream_settle now cacheKey (Rejected error) w)) cacheKey
        = Some (Failed (the error) (ttl_expiry now w))"
    by (simp add: getOrCreateNzbdavStream_settle_def)
next
  assume a: "nzbdavStreamCache w cacheKey = Some (Failed err e) \<and> \<not> is_expired now e"
  then have "nzbdavStreamCache (cleanupNzbdavCache now w) cacheKey = Some (Failed err e)"
    using cleanup_keeps_unexpired [of w cacheKey "Failed err e" now] by simp
  then show "fst (getOrCreateNzbdavStream_call now cacheKey w) = Throw err"
    and "builder_calls (snd (getOrCreateNzbdavStream_call now cacheKey w)) = builder_calls w"
    by (simp_all add: getOrCreateNzbdavStream_call_def Let_def cleanup_other_fields)
next
  assume "isTimeoutError error \<and> \<not> is_flagged_failure error"
  then show "nzbdavStreamCache (snd (getOrCreateNzbdavStream_settle now cacheKey (Rejected error) w)) cacheKey
        = Some (Timeout_pending (the error) now (now + TIMEOUT_PENDING_TTL_MS))"
    by (simp add: getOrCreateNzbdavStream_settle_def)
next
  assume "nzbdavStreamCache w cacheKey = Some (Timeout_pending err s t)"
  then have "nzbdavStreamCache w cacheKey = None \<or>
           (\<exists>err s e. nzbdavStreamCache w cacheKey = Some (Timeout_pending err s e))" by blast
  from call_starts_attempt [OF this, of now]
  show "fst (getOrCreateNzbdavStream_call now cacheKey w) = Await (next_promise w)"
    and "builder_calls (snd (getOrCreateNzbdavStream_call now cacheKey w))
        = builder_calls w @ [cacheKey]"
    and "nzbdavStreamCache (snd (getOrCreateNzbdavStream_call now cacheKey w)) cacheKey
        = Some (Pending (next_promise w))" by simp_all
qed

lemma flagged_timeout_flagged: "is_flagged_failure (Some flagged_timeout)"
  by (simp add: is_flagged_failure_def flagged_timeout_def)

text \<open>
  C2 as stated fails: a flagged backend failure whose message contains \<^verbatim>\<open>Timeout\<close> is a
  timeout error for \<^verbatim>\<open>isTimeoutError\<close>, and the attempt that fails with it leaves the
  entry failed, since the flag is tested first.
\<close>

theorem timeout_error_cached_as_failed:
  "isTimeoutError (Some flagged_timeout) \<and>
   nzbdavStreamCache (snd (getOrCreateNzbdavStream_settle 5 ''k'' (Rejected (Some flagged_timeout))
      (initial_world None None :: nat world))) ''k'' = Some (Failed flagged_timeout (Some 86400005))"
proof
  show "isTimeoutError (Some flagged_timeout)"
    by (simp add: isTimeoutError_def flagged_timeout_def startsWith_def)
  show "nzbdavStreamCache (snd (getOrCreateNzbdavStream_settle 5 ''k'' (Rejected (Some flagged_timeout))
      (initial_world None None :: nat world))) ''k'' = Some (Failed flagged_timeout (Some 86400005))"
    by (simp add: getOrCreateNzbdavStream_settle_def flagged_timeout_flagged
      ttl_expiry_def initial_world_def reloadNzbdavCacheConfig_def DAY_MS_def)
qed

theorem error_path_transitions_witness:
  "isTimeoutError (Some plain_timeout) \<and> \<not> is_flagged_failure (Some plain_timeout) \<and>
   is_flagged_failure (Some flagged_timeout) \<and>
   nzbdavStreamCache (snd (getOrCreateNzbdavStream_settle 5 ''k'' (Rejected (Some flagged_timeout))
      (initial_world None None :: nat world))) ''k''
     = Some (Failed flagged_timeout (Some 86400005)) \<and>
   \<not> is_expired 9 (Some 86400005) \<and>
   nzbdavStreamCache (snd (getOrCreateNzbdavStream_settle 5 ''k'' (Rejected (Some plain_timeout))
      (initial_world None None :: nat world))) ''k''
     = Some (Timeout_pending plain_timeout 5 600005) \<and>
   fst (getOrCreateNzbdavStream_call 9 ''k''
      (snd (getOrCreateNzbdavStream_settle 5 ''k'' (Rejected (Some plain_timeout))
         (initial_world None None :: nat world)))) = Await 0 \<and>
   fst (getOrCreateNzbdavStream_call 9 ''k''
      (snd (getOrCreateNzbdavStream_settle 5 ''k'' (Rejected (Some flagged_timeout))
         (initial_world None None :: nat world)))) = Throw flagged_timeout"
proof -
  let ?w0 = "initial_world None None :: nat world"
  let ?w1 = "snd (getOrCreateNzbdavStream_settle 5 ''k'' (Rejected (Some plain_timeout)) ?w0)"
  let ?w2 = "snd (getOrCreateNzbdavStream_settle 5 ''k'' (Rejected (Some flagged_timeout)) ?w0)"
  have h1: "isTimeoutError (Some plain_timeout) \<and> \<not> is_flagged_failure (Some plain_timeout)"
    by (simp add: isTimeoutError_def is_flagged_failure_def plain_timeout_def startsWith_def)
  have a: "nzbdavStreamCache ?w1 ''k'' = Some (Timeout_pending plain_timeout 5 600005)"
    using h1 error_path_transitions [of ?w0 "''k''" undefined undefined 5 "Some plain_timeout"]
    by (simp add: TIMEOUT_PENDING_TTL_MS_def)
  have n: "next_promise ?w1 = 0"
    by (simp add: getOrCreateNzbdavStream_settle_def initial_world_def
        reloadNzbdavCacheConfig_def split: if_splits)
  have b: "fst (getOrCreateNzbdavStream_call 9 ''k'' ?w1) = Await 0"
    using a n error_path_transitions [of ?w1 "''k''" plain_timeout undefined 9 None 5 600005]
    by simp
  have f: "nzbdavStreamCache ?w2 ''k'' = Some (Failed flagged_timeout (Some 86400005))"
    using flagged_timeout_flagged
      error_path_transitions [of ?w0 "''k''" undefined undefined 5 "Some flagged_timeout"]
    by (simp add: ttl_expiry_def initial_world_def reloadNzbdavCacheConfig_def DAY_MS_def)
  have e: "\<not> is_expired 9 (Some 86400005)"
    by (simp add: is_expired_def truthy_num_def)
  have c: "fst (getOrCreateNzbdavStream_call 9 ''k'' ?w2) = Throw flagged_timeout"
    using f e error_path_transitions [of ?w2 "''k''" flagged_timeout "Some 86400005" 9 None]
    by simp
  show ?thesis using h1 e a b c f flagged_timeout_flagged by simp
qed

text \<open>
  C10. When an attempt fails with a thrown value that is neither a flagged backend failure
  nor a timeout error, the value is rethrown and the entry of the key is deleted; the next
  call for the key finds no entry, invokes the builder again and stores a new pending
  entry.
\<close>

theorem other_error_not_cached:
  assumes "\<not> is_flagged_failure error" and "\<not> isTimeoutError error"
      and "w' = snd (getOrCreateNzbdavStream_settle now cacheKey (Rejected error) w)"
  shows "fst (getOrCreateNzbdavStream_settle now cacheKey (Rejected error) w) = Inl error \<and>
         nzbdavStreamCache w' cacheKey = None \<and>
         fst (getOrCreateNzbdavStream_call now' cacheKey w') = Await (next_promise w') \<and>
         builder_calls (snd (getOrCreateNzbdavStream_call now' cacheKey w'))
           = builder_calls w' @ [cacheKey] \<and>
         nzbdavStreamCache (snd (getOrCreateNzbdavStream_call now' cacheKey w')) cacheKey
           = Some (Pending (next_promise w'))"
proof -
  have r: "fst (getOrCreateNzbdavStream_settle now cacheKey (Rejected error) w) = Inl error"
    by (simp add: getOrCreateNzbdavStream_settle_def)
  have d: "nzbdavStreamCache w' cacheKey = None"
    using assms by (simp add: getOrCreateNzbdavStream_settle_def)
  then have "nzbdavStreamCache w' cacheKey = None \<or>
       (\<exists>err s e. nzbdavStreamCache w' cacheKey = Some (Timeout_pending err s e))" by simp
  from call_starts_attempt [OF this, of now'] r d show ?thesis by simp
qed

theorem other_error_not_cached_witness:
  "\<not> is_flagged_failure (Some plain_error) \<and> \<not> isTimeoutError (Some plain_error) \<and>
   nzbdavStreamCache (snd (getOrCreateNzbdavStream_settle 7 ''k'' (Rejected (Some plain_error))
      (run (initial_world None None) [Call 1 ''k'' :: nat event]))) ''k'' = None \<and>
   fst (getOrCreateNzbdavStream_call 8 ''k''
     (snd (getOrCreateNzbdavStream_settle 7 ''k'' (Rejected (Some plain_error))
      (run (initial_world None None) [Call 1 ''k'' :: nat event])))) = Await 1"
proof -
  let ?w = "run (initial_world None None) [Call 1 ''k'' :: nat event]"
  let ?w' = "snd (getOrCreateNzbdavStream_settle 7 ''k'' (Rejected (Some plain_error)) ?w)"
  have h1: "\<not> is_flagged_failure (Some plain_error)"
    by (simp add: is_flagged_failure_def plain_error_def)
  have h2: "\<not> isTimeoutError (Some plain_error)"
    by (simp add: isTimeoutError_def plain_error_def startsWith_def)
  have n: "next_promise ?w' = 1"
    by (simp add: settle_other_fields run_def getOrCreateNzbdavStream_call_def
        cleanupNzbdavCache_def initial_world_def reloadNzbdavCacheConfig_def start_attempt_def
        Let_def DAY_MS_def)
  from other_error_not_cached [OF h1 h2 refl, of 7 "''k''" ?w 8] h1 h2 n
  show ?thesis by simp
qed

lemma call_keeps_ttl:
  "NZBDAV_CACHE_TTL_MS (snd (getOrCreateNzbdavStream_call now k w)) = NZBDAV_CACHE_TTL_MS w"
  by (simp add: getOrCreateNzbdavStream_call_def Let_def start_attempt_def cleanup_other_fields
      split: option.splits cache_entry.splits)

lemma settle_keeps_ttl:
  "NZBDAV_CACHE_TTL_MS (snd (getOrCreateNzbdavStream_settle now k out w)) = NZBDAV_CACHE_TTL_MS w"
  by (simp add: getOrCreateNzbdavStream_settle_def split: outcome.splits)

lemma step_keeps_ttl: "NZBDAV_CACHE_TTL_MS (step w ev) = NZBDAV_CACHE_TTL_MS w"
  by (cases ev)
     (simp_all add: call_keeps_ttl settle_keeps_ttl cleanup_other_fields clearNzbdavStreamCache_def
        clearNzbdavStreamCacheEntry_def split: option.splits)

lemma run_keeps_ttl: "NZBDAV_CACHE_TTL_MS (run w evs) = NZBDAV_CACHE_TTL_MS w"
  unfolding run_def by (induction evs arbitrary: w) (simp_all add: step_keeps_ttl)

text \<open>
  C8 (amended). Zero lifetimes of the two caches. With a negative-cache lifetime of zero
  \<^verbatim>\<open>markDownloadUrlFailed\<close> changes nothing, so a URL with no stored failure still has
  none afterwards. With a resolution-cache lifetime of zero the ready and the failed entries
  that \<^verbatim>\<open>getOrCreateNzbdavStream\<close> writes carry no expiry (a pending entry never has
  one), and in every state of a run the expiry cleanup removes nothing, at any time.
\<close>

theorem zero_ttl_semantics:
  "(NEGATIVE_CACHE_TTL_MS w = 0 \<longrightarrow>
      markDownloadUrlFailed now downloadUrl reason errCode w = w \<and>
      (failedDownloadUrlCache w downloadUrl = None \<longrightarrow>
         fst (isDownloadUrlFailed now' downloadUrl
                (markDownloadUrlFailed now downloadUrl reason errCode w)) = None)) \<and>
   (NZBDAV_CACHE_TTL_MS w = 0 \<longrightarrow>
      nzbdavStreamCache (snd (getOrCreateNzbdavStream_settle now cacheKey (Resolved d) w)) cacheKey
        = Some (Ready d None) \<and>
      (is_flagged_failure error \<longrightarrow>
         nzbdavStreamCache (snd (getOrCreateNzbdavStream_settle now cacheKey (Rejected error) w))
           cacheKey = Some (Failed (the error) None)) \<and>
      expiresAt (Pending p :: 'd cache_entry) = None \<and>
      cleanupNzbdavCache now' (run w evs) = run w evs)"
proof (intro conjI impI)
  assume z: "NEGATIVE_CACHE_TTL_MS w = 0"
  then show m: "markDownloadUrlFailed now downloadUrl reason errCode w = w"
    by (simp add: markDownloadUrlFailed_def)
  assume "failedDownloadUrlCache w downloadUrl = None"
  then show "fst (isDownloadUrlFailed now' downloadUrl
                (markDownloadUrlFailed now downloadUrl reason errCode w)) = None"
    using z by (simp add: m isDownloadUrlFailed_def cleanupNegativeCache_def)
next
  assume z: "NZBDAV_CACHE_TTL_MS w = 0"
  then show "nzbdavStreamCache (snd (getOrCreateNzbdavStream_settle now cacheKey (Resolved d) w)) cacheKey
        = Some (Ready d None)"
    by (simp add: getOrCreateNzbdavStream_settle_def ttl_expiry_def)
  show "expiresAt (Pending p :: 'd cache_entry) = None" by simp
  have "NZBDAV_CACHE_TTL_MS (run w evs) = 0" using z by (simp add: run_keeps_ttl)
  then show "cleanupNzbdavCache now' (run w evs) = run w evs"
    by (simp add: cleanupNzbdavCache_def)
  assume "is_flagged_failure error"
  then show "nzbdavStreamCache (snd (getOrCreateNzbdavStream_settle now cacheKey (Rejected error) w))
           cacheKey = Some (Failed (the error) None)"
    using z by (simp add: getOrCreateNzbdavStream_settle_def ttl_expiry_def)
qed

lemma zero_config:
  "NZBDAV_CACHE_TTL_MS (initial_world (Some 0) (Some 0) :: nat world) = 0"
  "NEGATIVE_CACHE_TTL_MS (initial_world (Some 0) (Some 0) :: nat world) = 0"
  "failedDownloadUrlCache (initial_world (Some 0) (Some 0) :: nat world) = Map.empty"
  by (simp_all add: initial_world_def reloadNzbdavCacheConfig_def)

theorem zero_ttl_semantics_witness:
  "NEGATIVE_CACHE_TTL_MS (initial_world (Some 0) (Some 0) :: nat world) = 0 \<and>
   NZBDAV_CACHE_TTL_MS (initial_world (Some 0) (Some 0) :: nat world) = 0 \<and>
   is_flagged_failure (Some flagged_timeout) \<and>
   fst (isDownloadUrlFailed 1000000000000 ''u''
     (markDownloadUrlFailed 5 ''u'' ''failed'' None (initial_world (Some 0) (Some 0) :: nat world)))
     = None \<and>
   nzbdavStreamCache (snd (getOrCreateNzbdavStream_settle 5 ''k'' (Resolved 42)
     (initial_world (Some 0) (Some 0) :: nat world))) ''k'' = Some (Ready 42 None) \<and>
   nzbdavStreamCache (snd (getOrCreateNzbdavStream_settle 5 ''k'' (Rejected (Some flagged_timeout))
     (initial_world (Some 0) (Some 0) :: nat world))) ''k'' = Some (Failed flagged_timeout None) \<and>
   cleanupNzbdavCache 1000000000000
     (run (initial_world (Some 0) (Some 0) :: nat world) [Call 1 ''k'', Settle 5 0 (Resolved 42)])
     = run (initial_world (Some 0) (Some 0)) [Call 1 ''k'', Settle 5 0 (Resolved 42)]"
  using zero_ttl_semantics [where w = "initial_world (Some 0) (Some 0) :: nat world" and now = 5
      and downloadUrl = "''u''" and reason = "''failed''" and errCode = None
      and now' = 1000000000000 and cacheKey = "''k''" and d = 42
      and error = "Some flagged_timeout" and p = 0
      and evs = "[Call 1 ''k'', Settle 5 0 (Resolved 42)]"]
  by (auto simp: zero_config flagged_timeout_flagged)

text \<open>
  C8 as stated fails for one of the entries \<^verbatim>\<open>getOrCreateNzbdavStream\<close> writes: with a
  resolution-cache lifetime of zero, the timeout_pending entry still carries an expiry, ten
  minutes after the failure.
\<close>

theorem zero_ttl_timeout_pending_has_expiry:
  "NZBDAV_CACHE_TTL_MS (initial_world (Some 0) None :: nat world) = 0 \<and>
   nzbdavStreamCache (snd (getOrCreateNzbdavStream_settle 5 ''k'' (Rejected (Some plain_timeout))
      (initial_world (Some 0) None :: nat world))) ''k''
     = Some (Timeout_pending plain_timeout 5 600005) \<and>
   expiresAt (Timeout_pending plain_timeout 5 600005 :: nat cache_entry) = Some 600005"
proof -
  have h1: "isTimeoutError (Some plain_timeout) \<and> \<not> is_flagged_failure (Some plain_timeout)"
    by (simp add: isTimeoutError_def is_flagged_failure_def plain_timeout_def startsWith_def)
  then show ?thesis
    by (simp add: getOrCreateNzbdavStream_settle_def TIMEOUT_PENDING_TTL_MS_def
        initial_world_def reloadNzbdavCacheConfig_def)
qed

section \<open>Properties of the completion watcher\<close>

lemma failed_attempt_delay:
  assumes "configured w" and "reconnectTimer w = None"
  shows "configured (failed_attempt w) \<and> reconnectTimer (failed_attempt w) = None \<and>
         reconnectDelay (failed_attempt w) = min (reconnectDelay w * 2) MAX_RECONNECT_DELAY"
  using assms
  by (simp add: failed_attempt_def on_close_def scheduleReconnect_def reconnect_timer_fires_def
      connect_def cleanup_def Let_def)

lemma doubling_capped:
  "min (min (1000 * 2 ^ n) 30000 * 2) (30000::int) = min (1000 * 2 ^ Suc n) 30000"
  by simp

lemma failed_attempts_delay:
  assumes "configured w" and "reconnectTimer w = None" and "reconnectDelay w = 1000"
  shows "configured ((failed_attempt ^^ n) w) \<and> reconnectTimer ((failed_attempt ^^ n) w) = None \<and>
         reconnectDelay ((failed_attempt ^^ n) w) = min (1000 * 2 ^ n) MAX_RECONNECT_DELAY"
proof (induction n)
  case 0
  then show ?case using assms by (simp add: MAX_RECONNECT_DELAY_def)
next
  case (Suc n)
  from failed_attempt_delay [of "(failed_attempt ^^ n) w"] Suc
  show ?case using doubling_capped [of n] by (simp add: MAX_RECONNECT_DELAY_def)
qed

lemma capped_power: "min (1000 * 2 ^ n) (30000::int) = (if n < 5 then 1000 * 2 ^ n else 30000)"
proof (cases "n < 5")
  case True
  then have "(2::int) ^ n \<le> 2 ^ 4" by (intro power_increasing) simp_all
  then show ?thesis using True by simp
next
  case False
  then have "(2::int) ^ 5 \<le> 2 ^ n" by (intro power_increasing) simp_all
  then show ?thesis using False by simp
qed

text \<open>
  C9. Reconnect backoff. From a state whose delay is at the 1000 ms base and that has no
  reconnect timer armed, the close that follows \<open>n\<close> consecutive failed attempts arms the
  reconnect timer with 1000, 2000, 4000, 8000 and 16000 ms for \<open>n\<close> from 0 to 4 and with
  30000 ms for every later one. The open handler sets the delay to the 1000 ms base, and a
  freshly initialised watcher has it too, with no timer armed.
\<close>

theorem reconnect_backoff:
  "(configured w \<and> reconnectTimer w = None \<and> reconnectDelay w = 1000 \<longrightarrow>
      reconnectTimer (on_close ((failed_attempt ^^ n) w))
        = Some (if n < 5 then 1000 * 2 ^ n else 30000)) \<and>
   reconnectDelay (on_open w) = 1000 \<and>
   reconnectDelay (init (initial_watcher cfg)) = 1000 \<and>
   reconnectTimer (init (initial_watcher cfg)) = None"
proof (intro conjI impI)
  assume a: "configured w \<and> reconnectTimer w = None \<and> reconnectDelay w = 1000"
  from failed_attempts_delay [of w n] a
  show "reconnectTimer (on_close ((failed_attempt ^^ n) w))
        = Some (if n < 5 then 1000 * 2 ^ n else 30000)"
    using capped_power [of n]
    by (simp add: on_close_def scheduleReconnect_def MAX_RECONNECT_DELAY_def)
qed (simp_all add: on_open_def init_def initial_watcher_def connect_def cleanup_def Let_def)

theorem reconnect_backoff_witness:
  "configured (init (initial_watcher True)) \<and>
   reconnectTimer (init (initial_watcher True)) = None \<and>
   reconnectDelay (init (initial_watcher True)) = 1000 \<and>
   reconnectTimer (on_close ((failed_attempt ^^ 0) (init (initial_watcher True)))) = Some 1000 \<and>
   reconnectTimer (on_close ((failed_attempt ^^ 1) (init (initial_watcher True)))) = Some 2000 \<and>
   reconnectTimer (on_close ((failed_attempt ^^ 2) (init (initial_watcher True)))) = Some 4000 \<and>
   reconnectTimer (on_close ((failed_attempt ^^ 3) (init (initial_watcher True)))) = Some 8000 \<and>
   reconnectTimer (on_close ((failed_attempt ^^ 4) (init (initial_watcher True)))) = Some 16000 \<and>
   reconnectTimer (on_close ((failed_attempt ^^ 5) (init (initial_watcher True)))) = Some 30000 \<and>
   reconnectTimer (on_close ((failed_attempt ^^ 9) (init (initial_watcher True)))) = Some 30000"
proof -
  let ?w = "init (initial_watcher True)"
  have h: "configured ?w \<and> reconnectTimer ?w = None \<and> reconnectDelay ?w = 1000"
    by (simp add: init_def initial_watcher_def connect_def cleanup_def Let_def)
  show ?thesis
    using h reconnect_backoff [of ?w 0] reconnect_backoff [of ?w 1] reconnect_backoff [of ?w 2]
      reconnect_backoff [of ?w 3] reconnect_backoff [of ?w 4] reconnect_backoff [of ?w 5]
      reconnect_backoff [of ?w 9]
    by simp
qed

text \<open>
  The dispatch of an event for a tracked job: a completed status fulfils the waiter's
  promise with the slot, a failed status rejects it with the flagged failure that carries
  the backend's message, and any other status settles nothing but still removes the waiter
  and clears its deadline timer.
\<close>

lemma handleMessage_completed:
  assumes "waiters w job = Some wt" and "job \<noteq> []" and "promises w (promise wt) = Some Unsettled"
  shows "promises (handleMessage (status_event job ''completed'') w) (promise wt)
           = Some (Fulfilled \<lparr>nzo_id = Some job, nzoId = None, NzoId = None,
                slot_status = Some ''completed'', Status = None, fail_message = None,
                failMessage = None, FailMessage = None\<rparr>)"
  using assms
  by (simp add: handleMessage_def status_event_def js_or_def truthy_str_def toLowerCase_def
      lower_char_def settle_promise_def Let_def)

lemma handleMessage_failed:
  assumes "waiters w job = Some wt" and "job \<noteq> []" and "promises w (promise wt) = Some Unsettled"
      and "msg \<noteq> []"
  shows "promises (handleMessage (Outer ''ha'' (Slot_object
             \<lparr>nzo_id = Some job, nzoId = None, NzoId = None, slot_status = Some ''failed'',
              Status = None, fail_message = Some msg, failMessage = None,
              FailMessage = None\<rparr>)) w) (promise wt)
           = Some (Rejected_with (Flagged_failure
               \<lparr>isNzbdavFailure = True, message = ''[NZBDAV] NZB failed: '' @ msg, code = '''',
                failureMessage = msg, failed_nzoId = job\<rparr>))"
  using assms
  by (simp add: handleMessage_def js_or_def truthy_str_def toLowerCase_def
      lower_char_def settle_promise_def Let_def)

lemma handleMessage_other_status:
  assumes "waiters w job = Some wt" and "job \<noteq> []"
      and "toLowerCase st \<noteq> ''completed''" and "toLowerCase st \<noteq> ''failed''" and "st \<noteq> []"
  shows "waiters (handleMessage (status_event job st) w) job = None \<and>
         timers (handleMessage (status_event job st) w) (timer wt) = None \<and>
         promises (handleMessage (status_event job st) w) = promises w"
  using assms
  by (simp add: handleMessage_def status_event_def js_or_def truthy_str_def Let_def)

text \<open>
  C3, the third case, evaluated. A waiter for job \<^verbatim>\<open>J\<close> is registered with an 80000 ms
  deadline; an event for \<^verbatim>\<open>J\<close> with status \<^verbatim>\<open>extracting\<close> arrives. Afterwards the
  waiter is no longer registered and its deadline timer is cleared, while its promise is
  still unsettled: the deadline can no longer reject it, and a later \<^verbatim>\<open>completed\<close> event
  for \<^verbatim>\<open>J\<close> finds no waiter and changes nothing.
\<close>

theorem other_status_drops_waiter:
  "waiters watching ''J'' = Some \<lparr>promise = 0, timer = 0\<rparr> \<and>
   timers watching 0 = Some (80000, ''J'', 0) \<and>
   waiters (handleMessage (status_event ''J'' ''extracting'') watching) ''J'' = None \<and>
   timers (handleMessage (status_event ''J'' ''extracting'') watching) 0 = None \<and>
   promises (handleMessage (status_event ''J'' ''extracting'') watching) 0 = Some Unsettled \<and>
   waiter_timer_fires 0 (handleMessage (status_event ''J'' ''extracting'') watching)
     = handleMessage (status_event ''J'' ''extracting'') watching \<and>
   handleMessage (status_event ''J'' ''completed'')
       (handleMessage (status_event ''J'' ''extracting'') watching)
     = handleMessage (status_event ''J'' ''extracting'') watching"
  by (simp add: watching_def waitForHistoryEvent_def init_def initial_watcher_def connect_def
      cleanup_def Let_def handleMessage_def status_event_def js_or_def truthy_str_def
      toLowerCase_def lower_char_def waiter_timer_fires_def settle_promise_def)

section \<open>Properties of the instant cache\<close>

lemma INSTANT_CACHE_TTL_MS_positive: "INSTANT_CACHE_TTL_MS days > 0"
  by (simp add: INSTANT_CACHE_TTL_MS_def split: option.splits)

text \<open>
  The lifetime is positive for every setting, and a lookup of an entry older than the
  lifetime removes that entry, returns none, and leaves the other entries alone.
\<close>

lemma lookup_of_expired_entry:
  assumes "instantCache s = Some cache"
      and "cache (buildInstantCacheKey type ident ep) = Some ent"
      and "cachedAt ent = Some t" and "t \<noteq> 0"
      and "now - t > INSTANT_CACHE_TTL_MS (INSTANT_CACHE_TTL_DAYS s)"
  shows "fst (getInstantCacheEntry now type ident ep s) = None \<and>
         the (instantCache (snd (getInstantCacheEntry now type ident ep s)))
           (buildInstantCacheKey type ident ep) = None \<and>
         (\<forall>k. k \<noteq> buildInstantCacheKey type ident ep \<longrightarrow>
            the (instantCache (snd (getInstantCacheEntry now type ident ep s))) k = cache k)"
  using assms INSTANT_CACHE_TTL_MS_positive [of "INSTANT_CACHE_TTL_DAYS s"]
  by (simp add: getInstantCacheEntry_def getInstantCache_def saveInstantCache_def Let_def
      truthy_num_def)

lemma zero_days_cache_value:
  "instantCache zero_days_cache
     = Some [''movie:tt0133093'' \<mapsto> \<lparr>entryData = 7, cachedAt = Some 1000\<rparr>]"
  "INSTANT_CACHE_TTL_DAYS zero_days_cache = Some 0"
  by (simp_all add: zero_days_cache_def setInstantCacheEntry_def getInstantCache_def
      loadInstantCache_def initial_instant_def saveInstantCache_def buildInstantCacheKey_def
      Let_def)

text \<open>
  C4, the zero case, evaluated. With \<^verbatim>\<open>INSTANT_CACHE_TTL_DAYS=0\<close> the lifetime is the
  default of seven days, not zero. An entry stored at time 1000 is still returned seven
  days later and is removed by the lookup one millisecond after that.
\<close>

theorem zero_days_still_expires:
  "INSTANT_CACHE_TTL_MS (INSTANT_CACHE_TTL_DAYS zero_days_cache) = 604800000 \<and>
   fst (getInstantCacheEntry 604801000 ''movie'' ''tt0133093'' None zero_days_cache)
     = Some \<lparr>entryData = 7, cachedAt = Some 1000\<rparr> \<and>
   fst (getInstantCacheEntry 604801001 ''movie'' ''tt0133093'' None zero_days_cache) = None \<and>
   instantCache (snd (getInstantCacheEntry 604801001 ''movie'' ''tt0133093'' None zero_days_cache))
     = Some Map.empty"
  by (simp add: getInstantCacheEntry_def getInstantCache_def zero_days_cache_value
      INSTANT_CACHE_TTL_MS_def buildInstantCacheKey_def truthy_num_def saveInstantCache_def
      Let_def)

section \<open>Properties of binary64 rounding\<close>

text \<open>
  The rounded value is a binary64 number, it is within half a unit in the last place of
  the exact value (a relative error of at most \<open>2\<^sup>-\<^sup>5\<^sup>3\<close> in the normal range), it keeps
  the sign, and it does not exceed 1 when the exact value does not.
\<close>

lemma pow2_pos: "0 < pow2 e"
  by (simp add: pow2_def)

lemma rne_div_nonneg:
  assumes "0 < d" and "0 \<le> n"
  shows "0 \<le> rne_div n d"
proof -
  have "0 \<le> n div d" using assms by (simp add: pos_imp_zdiv_nonneg_iff)
  then show ?thesis by (simp add: rne_div_def Let_def)
qed

lemma rne_div_le:
  assumes "0 < d" and "n \<le> N * d"
  shows "rne_div n d \<le> N"
proof -
  have q: "n div d \<le> N"
  proof -
    have "n div d \<le> (N * d) div d" using assms by (intro zdiv_mono1) simp_all
    then show ?thesis using assms by simp
  qed
  show ?thesis
  proof (cases "n div d = N")
    case True
    have "n = d * (n div d) + n mod d" by simp
    then have "n mod d = n - N * d" using True by (simp add: algebra_simps)
    then have "n mod d \<le> 0" using assms by simp
    moreover have "0 \<le> n mod d" using assms by simp
    ultimately have "n mod d = 0" by simp
    then show ?thesis using True assms by (simp add: rne_div_def Let_def)
  next
    case False
    then have "n div d + 1 \<le> N" using q by simp
    then show ?thesis using q by (simp add: rne_div_def Let_def)
  qed
qed

lemma bitlen_mono: "a \<le> b \<Longrightarrow> bitlen a \<le> bitlen b"
  by (simp add: bitlen_def floorlog_mono nat_mono)

lemma binade_le_0:
  assumes "n \<le> d"
  shows "binade n d \<le> 0"
proof -
  have "bitlen n - bitlen d \<le> 0" using bitlen_mono [OF assms] by simp
  then show ?thesis by (simp add: binade_def Let_def)
qed

lemma round_frac_nonneg:
  assumes "0 < d" and "0 \<le> n"
  shows "0 \<le> round_frac n d"
proof -
  have "0 \<le> rne_div n (d * 2 ^ k)" for k :: nat
    using assms by (intro rne_div_nonneg) simp_all
  moreover have "0 \<le> rne_div (n * 2 ^ k) d" for k :: nat
    using assms by (intro rne_div_nonneg) simp_all
  ultimately show ?thesis
    using pow2_pos by (simp add: round_frac_def Let_def less_imp_le)
qed

lemma round_frac_le_1:
  assumes "0 < d" and "0 \<le> n" and "n \<le> d"
  shows "round_frac n d \<le> 1"
proof (cases "n = 0")
  case True
  then show ?thesis by (simp add: round_frac_def)
next
  case False
  define e where "e = exponent64 n d"
  have e: "e < 0" using binade_le_0 [OF assms(3)] by (simp add: e_def exponent64_def)
  define N :: int where "N = 2 ^ nat (- e)"
  have "n * N \<le> N * d" using assms by (simp add: N_def mult.commute)
  then have m: "rne_div (n * N) d \<le> N" using assms(1) by (rule rne_div_le [rotated])
  have "round_frac n d = of_int (rne_div (n * N) d) * pow2 e"
    using False e by (simp add: round_frac_def Let_def e_def [symmetric] N_def)
  also have "\<dots> = of_int (rne_div (n * N) d) / of_int N"
    using e by (simp add: pow2_def N_def)
  also have "\<dots> \<le> 1"
  proof -
    have "0 < N" by (simp add: N_def)
    moreover have "(of_int (rne_div (n * N) d) :: rat) \<le> of_int N" using m by simp
    ultimately show ?thesis by (simp add: divide_le_eq_1)
  qed
  finally show ?thesis .
qed

lemma round64_0: "round64 0 = 0"
  by (simp add: round64_def round_frac_def)

lemma round64_nonneg:
  assumes "0 \<le> x"
  shows "0 \<le> round64 x"
proof -
  obtain n d where q: "quotient_of x = (n, d)" by (cases "quotient_of x")
  then have d: "0 < d" and x: "x = of_int n / of_int d"
    by (simp_all add: quotient_of_denom_pos quotient_of_div)
  have "0 \<le> n" using assms d x by (simp add: zero_le_divide_iff)
  then show ?thesis using q d round_frac_nonneg [of d n] by (simp add: round64_def)
qed

lemma round64_le_1:
  assumes "x \<le> 1"
  shows "round64 x \<le> 1"
proof -
  obtain n d where q: "quotient_of x = (n, d)" by (cases "quotient_of x")
  then have d: "0 < d" and x: "x = of_int n / of_int d"
    by (simp_all add: quotient_of_denom_pos quotient_of_div)
  show ?thesis
  proof (cases "n < 0")
    case True
    then have "0 \<le> round_frac (- n) d" using d by (intro round_frac_nonneg) simp_all
    then show ?thesis using q True by (simp add: round64_def)
  next
    case False
    have "(of_int n :: rat) \<le> of_int d" using assms d x by (simp add: divide_le_eq_1)
    then have "n \<le> d" by simp
    then show ?thesis using q False d round_frac_le_1 [of d n] by (simp add: round64_def)
  qed
qed


lemma pow2_powi: "pow2 e = 2 powi e"
  by (simp add: pow2_def power_int_def power_one_over inverse_eq_divide)

lemma pow2_add: "pow2 (a + b) = pow2 a * pow2 b"
  by (simp add: pow2_powi power_int_add)

lemma pow2_nat: "pow2 (int k) = 2 ^ k"
  by (simp add: pow2_def)

lemma pow2_neg: "pow2 (- int k) = 1 / 2 ^ k"
  by (cases k) (simp_all add: pow2_def nat_add_distrib)

lemma pow2_strict_mono: "a < b \<Longrightarrow> pow2 a < pow2 b"
  by (simp add: pow2_powi power_int_strict_increasing)

lemma pow2_mono: "a \<le> b \<Longrightarrow> pow2 a \<le> pow2 b"
  by (simp add: pow2_powi power_int_increasing)

lemma rne_div_error:
  assumes "0 < d"
  shows "\<bar>of_int (rne_div a d) - (of_int a / of_int d :: rat)\<bar> \<le> 1 / 2"
proof -
  define q where "q = a div d"
  define r where "r = a mod d"
  have a: "a = d * q + r" by (simp add: q_def r_def)
  have r: "0 \<le> r" "r < d" using assms by (simp_all add: r_def)
  have D: "(0::rat) < of_int d" using assms by simp
  have frac: "(of_int a / of_int d :: rat) = of_int q + of_int r / of_int d"
    using D by (simp add: a field_simps)
  have rd: "(0::rat) \<le> of_int r / of_int d" "(of_int r / of_int d :: rat) < 1"
    using r D by simp_all
  consider "2 * r < d" | "2 * r > d" | "2 * r = d" by linarith
  then show ?thesis
  proof cases
    case 1
    then have "(of_int (2 * r) :: rat) < of_int d" by (simp only: of_int_less_iff)
    then have "(of_int r / of_int d :: rat) < 1 / 2" using D by (simp add: field_simps)
    moreover have "rne_div a d = q" using 1 by (simp add: rne_div_def q_def r_def Let_def)
    ultimately show ?thesis using rd frac by simp
  next
    case 2
    then have "(of_int d :: rat) < of_int (2 * r)" by (simp only: of_int_less_iff)
    then have "(of_int r / of_int d :: rat) > 1 / 2" using D by (simp add: field_simps)
    moreover have "rne_div a d = q + 1" using 2 by (simp add: rne_div_def q_def r_def Let_def)
    ultimately show ?thesis using rd frac by simp
  next
    case 3
    then have "(of_int (2 * r) :: rat) = of_int d" by (simp only: of_int_eq_iff)
    then have h: "(of_int r / of_int d :: rat) = 1 / 2" using D by (simp add: field_simps)
    have "rne_div a d = q \<or> rne_div a d = q + 1"
      using 3 by (simp add: rne_div_def q_def r_def Let_def)
    then show ?thesis using h frac by auto
  qed
qed

lemma round_frac_error:
  assumes "0 < n" and "0 < d"
  shows "\<bar>round_frac n d - of_int n / of_int d\<bar> \<le> pow2 (exponent64 n d) / 2"
proof -
  define e where "e = exponent64 n d"
  show ?thesis
  proof (cases "0 \<le> e")
    case True
    define k where "k = nat e"
    have ek: "e = int k" using True by (simp add: k_def)
    have rf: "round_frac n d = of_int (rne_div n (d * 2 ^ k)) * 2 ^ k"
      using assms True
      by (simp add: round_frac_def Let_def e_def [symmetric] k_def pow2_def)
    have "\<bar>of_int (rne_div n (d * 2 ^ k)) - (of_int n / of_int (d * 2 ^ k) :: rat)\<bar> \<le> 1 / 2"
      using assms by (intro rne_div_error) simp
    then have "\<bar>of_int (rne_div n (d * 2 ^ k)) - (of_int n / of_int (d * 2 ^ k) :: rat)\<bar> * 2 ^ k
                 \<le> 1 / 2 * 2 ^ k"
      by (intro mult_right_mono) simp_all
    moreover have "\<bar>of_int (rne_div n (d * 2 ^ k)) - (of_int n / of_int (d * 2 ^ k) :: rat)\<bar> * 2 ^ k
        = \<bar>of_int (rne_div n (d * 2 ^ k)) * 2 ^ k - (of_int n / of_int d :: rat)\<bar>"
    proof -
      have "\<bar>of_int (rne_div n (d * 2 ^ k)) - (of_int n / of_int (d * 2 ^ k) :: rat)\<bar> * 2 ^ k
          = \<bar>(of_int (rne_div n (d * 2 ^ k)) - (of_int n / of_int (d * 2 ^ k) :: rat)) * 2 ^ k\<bar>"
        by (simp add: abs_mult)
      also have "(of_int (rne_div n (d * 2 ^ k)) - (of_int n / of_int (d * 2 ^ k) :: rat)) * 2 ^ k
          = of_int (rne_div n (d * 2 ^ k)) * 2 ^ k - (of_int n / of_int d :: rat)"
        using assms by (simp add: field_simps)
      finally show ?thesis .
    qed
    ultimately have "\<bar>of_int (rne_div n (d * 2 ^ k)) * 2 ^ k - (of_int n / of_int d :: rat)\<bar>
        \<le> 1 / 2 * 2 ^ k" by (simp only:)
    moreover have "pow2 (exponent64 n d) / 2 = 1 / 2 * 2 ^ k"
      by (simp add: e_def [symmetric] ek pow2_nat)
    ultimately show ?thesis by (simp only: rf)
  next
    case False
    define k where "k = nat (- e)"
    have ek: "e = - int k" using False by (simp add: k_def)
    have rf: "round_frac n d = of_int (rne_div (n * 2 ^ k) d) / 2 ^ k"
      using assms False
      by (simp add: round_frac_def Let_def e_def [symmetric] k_def pow2_def)
    have "\<bar>of_int (rne_div (n * 2 ^ k) d) - (of_int (n * 2 ^ k) / of_int d :: rat)\<bar> \<le> 1 / 2"
      using assms by (intro rne_div_error)
    then have "\<bar>of_int (rne_div (n * 2 ^ k) d) - (of_int (n * 2 ^ k) / of_int d :: rat)\<bar> / 2 ^ k
                 \<le> 1 / 2 / 2 ^ k"
      by (intro divide_right_mono) simp_all
    moreover have "\<bar>of_int (rne_div (n * 2 ^ k) d) - (of_int (n * 2 ^ k) / of_int d :: rat)\<bar> / 2 ^ k
        = \<bar>of_int (rne_div (n * 2 ^ k) d) / 2 ^ k - (of_int n / of_int d :: rat)\<bar>"
    proof -
      have "\<bar>of_int (rne_div (n * 2 ^ k) d) - (of_int (n * 2 ^ k) / of_int d :: rat)\<bar> / 2 ^ k
          = \<bar>(of_int (rne_div (n * 2 ^ k) d) - (of_int (n * 2 ^ k) / of_int d :: rat)) / 2 ^ k\<bar>"
        by simp
      also have "(of_int (rne_div (n * 2 ^ k) d) - (of_int (n * 2 ^ k) / of_int d :: rat)) / 2 ^ k
          = of_int (rne_div (n * 2 ^ k) d) / 2 ^ k - (of_int n / of_int d :: rat)"
        using assms by (simp add: field_simps)
      finally show ?thesis .
    qed
    ultimately have "\<bar>of_int (rne_div (n * 2 ^ k) d) / 2 ^ k - (of_int n / of_int d :: rat)\<bar>
        \<le> 1 / 2 / 2 ^ k" by (simp only:)
    moreover have "pow2 (exponent64 n d) / 2 = 1 / 2 / 2 ^ k"
      by (simp add: e_def [symmetric] ek pow2_neg)
    ultimately show ?thesis by (simp only: rf)
  qed
qed


lemma pow2_diff: "pow2 (a - b) = pow2 a / pow2 b"
  by (simp add: pow2_powi power_int_diff)

lemma bitlen_pow2_bounds:
  assumes "0 < n"
  shows "pow2 (bitlen n - 1) \<le> of_int n" and "of_int n < pow2 (bitlen n)"
proof -
  have b: "2 ^ nat (bitlen n - 1) \<le> n" "n < 2 ^ nat (bitlen n)"
    using bitlen_bounds [OF assms] by simp_all
  have pos: "1 \<le> bitlen n"
    using assms bitlen_eq_zero_iff [of n] bitlen_nonneg [of n] by linarith
  have "(of_int (2 ^ nat (bitlen n - 1)) :: rat) \<le> of_int n"
    using b(1) by (simp only: of_int_le_iff)
  then show "pow2 (bitlen n - 1) \<le> of_int n"
    using pos by (simp add: pow2_def)
  have "(of_int n :: rat) < of_int (2 ^ nat (bitlen n))"
    using b(2) by (simp only: of_int_less_iff)
  then show "of_int n < pow2 (bitlen n)"
    using pos by (simp add: pow2_def)
qed

lemma binade_test:
  assumes "0 < d"
  shows "(if k \<ge> 0 then d * 2 ^ nat k \<le> n else d \<le> n * 2 ^ nat (- k))
           \<longleftrightarrow> pow2 k \<le> of_int n / of_int d"
proof (cases "k \<ge> 0")
  case True
  have "d * 2 ^ nat k \<le> n \<longleftrightarrow> (of_int (d * 2 ^ nat k) :: rat) \<le> of_int n"
    by (simp only: of_int_le_iff)
  also have "\<dots> \<longleftrightarrow> pow2 k \<le> of_int n / of_int d"
    using assms True by (simp add: pow2_def field_simps)
  finally show ?thesis using True by simp
next
  case False
  have "d \<le> n * 2 ^ nat (- k) \<longleftrightarrow> (of_int d :: rat) \<le> of_int (n * 2 ^ nat (- k))"
    by (simp only: of_int_le_iff)
  also have "\<dots> \<longleftrightarrow> pow2 k \<le> of_int n / of_int d"
    using assms False by (simp add: pow2_def field_simps)
  finally show ?thesis using False by simp
qed

lemma binade_bounds:
  assumes "0 < n" and "0 < d"
  shows "pow2 (binade n d) \<le> of_int n / of_int d"
    and "of_int n / of_int d < pow2 (binade n d + 1)"
proof -
  define k where "k = bitlen n - bitlen d"
  define x :: rat where "x = of_int n / of_int d"
  have D: "(0::rat) < of_int d" and N: "(0::rat) < of_int n" using assms by simp_all
  note bn = bitlen_pow2_bounds [OF assms(1)]
  note bd = bitlen_pow2_bounds [OF assms(2)]
  have up: "x < pow2 (k + 1)"
  proof -
    have "x < pow2 (bitlen n) / of_int d"
      unfolding x_def using bn(2) D by (simp add: divide_strict_right_mono)
    also have "\<dots> \<le> pow2 (bitlen n) / pow2 (bitlen d - 1)"
      using bd(1) pow2_pos [of "bitlen d - 1"] pow2_pos [of "bitlen n"]
      by (intro divide_left_mono) (simp_all add: less_imp_le)
    also have "\<dots> = pow2 (k + 1)"
      by (simp add: k_def pow2_diff [symmetric] algebra_simps)
    finally show ?thesis .
  qed
  have lo: "pow2 (k - 1) < x"
  proof -
    have "pow2 (k - 1) = pow2 (bitlen n - 1) / pow2 (bitlen d)"
      by (simp add: k_def pow2_diff [symmetric] algebra_simps)
    also have "\<dots> \<le> of_int n / pow2 (bitlen d)"
      using bn(1) pow2_pos [of "bitlen d"] by (simp add: divide_right_mono less_imp_le)
    also have "\<dots> < of_int n / of_int d"
      using bd(2) D N by (intro divide_strict_left_mono) simp_all
    finally show ?thesis by (simp add: x_def)
  qed
  have t: "binade n d = (if pow2 k \<le> x then k else k - 1)"
    using binade_test [OF assms(2), of k n]
    by (simp add: binade_def Let_def k_def [symmetric] x_def)
  show "pow2 (binade n d) \<le> of_int n / of_int d"
    using lo t by (auto simp: x_def less_imp_le)
  show "of_int n / of_int d < pow2 (binade n d + 1)"
    using up t by (auto simp: x_def not_le)
qed


lemma round_frac_significand:
  assumes "0 < n" and "0 < d"
  shows "\<exists>m. round_frac n d = of_int m * pow2 (exponent64 n d) \<and> 0 \<le> m \<and> m \<le> 2 ^ 53"
proof -
  define e where "e = exponent64 n d"
  have D: "(0::rat) < of_int d" using assms by simp
  have "binade n d + 1 \<le> e + 53" by (simp add: e_def exponent64_def)
  then have "pow2 (binade n d + 1) \<le> pow2 (e + 53)" by (rule pow2_mono)
  then have "of_int n / of_int d < pow2 (e + 53)"
    using binade_bounds(2) [OF assms] by simp
  then have x: "of_int n < pow2 e * 2 ^ 53 * of_int d"
    using D by (simp add: pow2_add pow2_def [of 53] pos_divide_less_eq)
  show ?thesis
  proof (cases "0 \<le> e")
    case True
    define k where "k = nat e"
    have ek: "e = int k" using True by (simp add: k_def)
    have "(of_int n :: rat) < of_int (2 ^ 53 * (d * 2 ^ k))"
      using x by (simp add: ek pow2_nat mult_ac)
    then have "n \<le> 2 ^ 53 * (d * 2 ^ k)" by (simp only: of_int_less_iff less_imp_le)
    then have "rne_div n (d * 2 ^ k) \<le> 2 ^ 53"
      using assms by (intro rne_div_le) simp_all
    moreover have "0 \<le> rne_div n (d * 2 ^ k)"
      using assms by (intro rne_div_nonneg) simp_all
    moreover have "round_frac n d = of_int (rne_div n (d * 2 ^ k)) * pow2 e"
      using assms True
      by (simp add: round_frac_def Let_def e_def [symmetric] k_def)
    ultimately show ?thesis unfolding e_def by blast
  next
    case False
    define k where "k = nat (- e)"
    have ek: "e = - int k" using False by (simp add: k_def)
    have "(of_int n :: rat) * 2 ^ k < 2 ^ 53 * of_int d"
      using x by (simp add: ek pow2_neg field_simps)
    then have "(of_int (n * 2 ^ k) :: rat) < of_int (2 ^ 53 * d)" by simp
    then have "n * 2 ^ k \<le> 2 ^ 53 * d" by (simp only: of_int_less_iff less_imp_le)
    then have "rne_div (n * 2 ^ k) d \<le> 2 ^ 53"
      using assms by (intro rne_div_le) simp_all
    moreover have "0 \<le> rne_div (n * 2 ^ k) d"
      using assms by (intro rne_div_nonneg) simp_all
    moreover have "round_frac n d = of_int (rne_div (n * 2 ^ k) d) * pow2 e"
      using assms False
      by (simp add: round_frac_def Let_def e_def [symmetric] k_def)
    ultimately show ?thesis unfolding e_def by blast
  qed
qed

lemma round_frac_relative_error:
  assumes "0 < n" and "0 < d" and "pow2 (- 1022) \<le> of_int n / of_int d"
  shows "\<bar>round_frac n d - of_int n / of_int d\<bar> \<le> of_int n / of_int d * pow2 (- 53)"
proof -
  have "pow2 (- 1022) < pow2 (binade n d + 1)"
    using assms(3) binade_bounds(2) [OF assms(1,2)] by simp
  then have "- 1022 < binade n d + 1"
    using pow2_mono [of "binade n d + 1" "- 1022"] by (cases "- 1022 < binade n d + 1") simp_all
  then have e: "exponent64 n d = binade n d - 52" by (simp add: exponent64_def)
  have "\<bar>round_frac n d - of_int n / of_int d\<bar> \<le> pow2 (binade n d - 52) / 2"
    using round_frac_error [OF assms(1,2)] by (simp add: e)
  also have "pow2 (binade n d - 52) / 2 = pow2 (binade n d) * pow2 (- 53)"
    by (simp add: pow2_diff pow2_def [of 52] pow2_def [of "- 53"])
  also have "\<dots> \<le> of_int n / of_int d * pow2 (- 53)"
    using binade_bounds(1) [OF assms(1,2)] pow2_pos [of "- 53"]
    by (intro mult_right_mono) (simp_all add: less_imp_le)
  finally show ?thesis .
qed

lemma round64_relative_error:
  assumes "pow2 (- 1022) \<le> \<bar>x\<bar>"
  shows "\<bar>round64 x - x\<bar> \<le> \<bar>x\<bar> * pow2 (- 53)"
proof -
  obtain n d where q: "quotient_of x = (n, d)" by (cases "quotient_of x")
  then have d: "0 < d" and x: "x = of_int n / of_int d"
    by (simp_all add: quotient_of_denom_pos quotient_of_div)
  have D: "(0::rat) < of_int d" using d by simp
  have nz: "x \<noteq> 0" using assms pow2_pos [of "- 1022"] by auto
  then have n0: "n \<noteq> 0" using x by auto
  show ?thesis
  proof (cases "n < 0")
    case True
    have ax: "\<bar>x\<bar> = of_int (- n) / of_int d" using True D by (simp add: x abs_if divide_less_0_iff)
    have big: "pow2 (- 1022) \<le> of_int (- n) / of_int d" using assms unfolding ax .
    have "0 < - n" using True by simp
    then have "\<bar>round_frac (- n) d - of_int (- n) / of_int d\<bar> \<le> of_int (- n) / of_int d * pow2 (- 53)"
      using d big by (rule round_frac_relative_error)
    moreover have "round64 x = - round_frac (- n) d" using q True by (simp add: round64_def)
    moreover have "x = - (of_int (- n) / of_int d)" by (simp add: x)
    ultimately show ?thesis unfolding ax
      by (metis abs_minus_commute minus_diff_minus abs_minus)
  next
    case False
    then have n: "0 < n" using n0 by simp
    have ax: "\<bar>x\<bar> = of_int n / of_int d" using n D by (simp add: x)
    have big: "pow2 (- 1022) \<le> of_int n / of_int d" using assms unfolding ax .
    have "\<bar>round_frac n d - of_int n / of_int d\<bar> \<le> of_int n / of_int d * pow2 (- 53)"
      using n d big by (rule round_frac_relative_error)
    moreover have "round64 x = round_frac n d" using q False by (simp add: round64_def)
    ultimately show ?thesis unfolding ax by (simp add: x)
  qed
qed

lemma round64_format:
  "\<exists>m e. round64 x = of_int m * pow2 e \<and> \<bar>m\<bar> \<le> 2 ^ 53 \<and> - 1074 \<le> e"
proof -
  obtain n d where q: "quotient_of x = (n, d)" by (cases "quotient_of x")
  then have d: "0 < d" by (simp add: quotient_of_denom_pos)
  have e: "- 1074 \<le> exponent64 a b" for a b by (simp add: exponent64_def)
  consider "n < 0" | "n = 0" | "0 < n" by linarith
  then show ?thesis
  proof cases
    case 1
    then obtain m where m: "round_frac (- n) d = of_int m * pow2 (exponent64 (- n) d)"
        "0 \<le> m" "m \<le> 2 ^ 53"
      using round_frac_significand [of "- n" d] d by auto
    have "round64 x = of_int (- m) * pow2 (exponent64 (- n) d)"
      using q 1 m(1) by (simp add: round64_def)
    moreover have "\<bar>- m\<bar> \<le> 2 ^ 53" using m by simp
    ultimately show ?thesis using e by blast
  next
    case 2
    then have "round64 x = of_int 0 * pow2 0" using q by (simp add: round64_def round_frac_def)
    then show ?thesis by (intro exI [of _ 0]) auto
  next
    case 3
    then obtain m where m: "round_frac n d = of_int m * pow2 (exponent64 n d)"
        "0 \<le> m" "m \<le> 2 ^ 53"
      using round_frac_significand [of n d] d by auto
    have "round64 x = of_int m * pow2 (exponent64 n d)"
      using q 3 m(1) by (simp add: round64_def)
    moreover have "\<bar>m\<bar> \<le> 2 ^ 53" using m by simp
    ultimately show ?thesis using e by blast
  qed
qed

section \<open>Properties of history matching\<close>

lemma calculateWordSimilarity_jaccard:
  "calculateWordSimilarity ws1 ws2 = round64 (jaccard (set ws1) (set ws2))"
proof (cases "ws1 = [] \<or> ws2 = []")
  case True
  then show ?thesis by (auto simp: calculateWordSimilarity_def jaccard_def round64_0)
next
  case False
  define I where "I = length (filter (\<lambda>word. word \<in> set (remdups ws2)) (remdups ws1))"
  define U where "U = length (remdups ws1) + length (remdups ws2) - I"
  have c: "calculateWordSimilarity ws1 ws2
             = (if U > 0 then round64 (of_nat I / of_nat U) else 0)"
    using False unfolding calculateWordSimilarity_def Let_def I_def U_def by simp
  have "set (filter (\<lambda>word. word \<in> set (remdups ws2)) (remdups ws1)) = set ws1 \<inter> set ws2"
    by auto
  moreover have "distinct (filter (\<lambda>word. word \<in> set (remdups ws2)) (remdups ws1))"
    by simp
  ultimately have i: "I = card (set ws1 \<inter> set ws2)"
    unfolding I_def by (metis distinct_card)
  have u: "U = card (set ws1 \<union> set ws2)"
    unfolding U_def i using card_Un_Int [of "set ws1" "set ws2"]
    by (simp add: length_remdups_card_conv)
  have pos: "card (set ws1 \<union> set ws2) > 0"
    using False by (simp add: card_gt_0_iff)
  have ne: "set ws1 \<union> set ws2 \<noteq> {}" using False by simp
  show ?thesis
    unfolding c jaccard_def using pos ne by (simp add: i u)
qed

lemma jaccard_bounds: "0 \<le> jaccard (set ws1) (set ws2) \<and> jaccard (set ws1) (set ws2) \<le> 1"
proof (cases "set ws1 \<union> set ws2 = {}")
  case True
  then show ?thesis by (simp add: jaccard_def)
next
  case False
  then have pos: "card (set ws1 \<union> set ws2) > 0" by (simp add: card_gt_0_iff)
  have "card (set ws1 \<inter> set ws2) \<le> card (set ws1 \<union> set ws2)"
    by (intro card_mono) auto
  then have "(of_nat (card (set ws1 \<inter> set ws2)) :: rat) \<le> of_nat (card (set ws1 \<union> set ws2))"
    by simp
  then show ?thesis
    using pos False unfolding jaccard_def by simp
qed

lemma calculateWordSimilarity_bounds:
  "0 \<le> calculateWordSimilarity ws1 ws2 \<and> calculateWordSimilarity ws1 ws2 \<le> 1"
  using jaccard_bounds [of ws1 ws2]
  by (simp add: calculateWordSimilarity_jaccard round64_nonneg round64_le_1)

text \<open>
  C6. The score of two parsed releases is computed in binary64 from the Jaccard similarity
  of their sets of title words: it is that ratio, rounded; with the rounded 0.1 added and
  the sum rounded, capped at 1, when both years are present and equal; with the rounded 0.2
  subtracted and the difference rounded, floored at 0, when both years are present and
  differ. It lies between 0 and 1.
\<close>

theorem release_similarity_score:
  "score (calculateReleaseSimilarity parsed1 parsed2) =
     (if truthy_str (year parsed1) \<and> truthy_str (year parsed2) \<and> year parsed1 = year parsed2
      then min 1 (round64 (round64 (jaccard (set (titleWords parsed1)) (set (titleWords parsed2)))
                            + round64 (1 / 10)))
      else if truthy_str (year parsed1) \<and> truthy_str (year parsed2) \<and> year parsed1 \<noteq> year parsed2
      then max 0 (round64 (round64 (jaccard (set (titleWords parsed1)) (set (titleWords parsed2)))
                            - round64 (2 / 10)))
      else round64 (jaccard (set (titleWords parsed1)) (set (titleWords parsed2)))) \<and>
   0 \<le> score (calculateReleaseSimilarity parsed1 parsed2) \<and>
   score (calculateReleaseSimilarity parsed1 parsed2) \<le> 1"
proof -
  define J where "J = calculateWordSimilarity (titleWords parsed1) (titleWords parsed2)"
  have j: "J = round64 (jaccard (set (titleWords parsed1)) (set (titleWords parsed2)))"
    by (simp add: J_def calculateWordSimilarity_jaccard)
  have b: "0 \<le> J" "J \<le> 1"
    using calculateWordSimilarity_bounds [of "titleWords parsed1" "titleWords parsed2"]
    by (simp_all add: J_def)
  have t: "0 \<le> round64 (1 / 10)" and f: "0 \<le> round64 (2 / 10)"
    by (simp_all add: round64_nonneg)
  have up: "0 \<le> round64 (J + round64 (1 / 10))"
    using b t by (intro round64_nonneg) simp
  have down: "round64 (J - round64 (2 / 10)) \<le> 1"
    using b f by (intro round64_le_1) simp
  have s: "score (calculateReleaseSimilarity parsed1 parsed2) =
     (if truthy_str (year parsed1) \<and> truthy_str (year parsed2) \<and> year parsed1 = year parsed2
      then min 1 (round64 (J + round64 (1 / 10)))
      else if truthy_str (year parsed1) \<and> truthy_str (year parsed2) \<and> year parsed1 \<noteq> year parsed2
      then max 0 (round64 (J - round64 (2 / 10)))
      else J)"
    by (simp add: calculateReleaseSimilarity_def Let_def J_def)
  have "0 \<le> score (calculateReleaseSimilarity parsed1 parsed2) \<and>
        score (calculateReleaseSimilarity parsed1 parsed2) \<le> 1"
    unfolding s using b up down by simp
  then show ?thesis using s unfolding j by simp
qed

text \<open>
  For the releases \<^verbatim>\<open>The.Matrix.1999\<close> and \<^verbatim>\<open>The.Matrix.Reloaded.2003\<close> the score is
  the binary64 number \<^verbatim>\<open>0.4666666666666666\<close>, not the fraction 7/15.
\<close>

lemma binary64_samples:
  "max 0 (round64 (round64 (2 / 3) - round64 (2 / 10))) = 8406719304424925 / 18014398509481984"
  "max 0 (round64 (round64 (3 / 5) - round64 (2 / 10))) = 7205759403792793 / 18014398509481984"
  "min 1 (round64 (round64 (1 / 2) + round64 (1 / 10))) = 5404319552844595 / 9007199254740992"
  "min 1 (round64 (0 + round64 (1 / 10))) = 3602879701896397 / 36028797018963968"
  "round64 (1 / 10) = 3602879701896397 / 36028797018963968"
  "round64 (4 / 10) = 3602879701896397 / 9007199254740992"
  "round64 (6 / 10) = 5404319552844595 / 9007199254740992"
  by code_simp+

theorem release_similarity_score_witness:
  "score (calculateReleaseSimilarity
      \<lparr>titleWords = [''the'', ''matrix''], year = Some ''1999'', resolution = None,
       source = None, codec = None, group = None, raw = ''The.Matrix.1999''\<rparr>
      \<lparr>titleWords = [''the'', ''matrix'', ''reloaded''], year = Some ''2003'', resolution = None,
       source = None, codec = None, group = None, raw = ''The.Matrix.Reloaded.2003''\<rparr>)
     = 8406719304424925 / 18014398509481984"
proof -
  let ?p1 = "\<lparr>titleWords = [''the'', ''matrix''], year = Some ''1999'', resolution = None,
       source = None, codec = None, group = None, raw = ''The.Matrix.1999''\<rparr>"
  let ?p2 = "\<lparr>titleWords = [''the'', ''matrix'', ''reloaded''], year = Some ''2003'',
       resolution = None, source = None, codec = None, group = None,
       raw = ''The.Matrix.Reloaded.2003''\<rparr>"
  have j: "jaccard (set [''the'', ''matrix'']) (set [''the'', ''matrix'', ''reloaded'']) = 2 / 3"
  proof -
    have "set [''the'', ''matrix''] \<inter> set [''the'', ''matrix'', ''reloaded'']
            = set [''the'', ''matrix'']" by auto
    moreover have "set [''the'', ''matrix''] \<union> set [''the'', ''matrix'', ''reloaded'']
            = set [''the'', ''matrix'', ''reloaded'']" by auto
    moreover have "card (set [''the'', ''matrix'']) = 2" by simp
    moreover have "card (set [''the'', ''matrix'', ''reloaded'']) = 3" by simp
    ultimately show ?thesis unfolding jaccard_def by simp
  qed
  have "score (calculateReleaseSimilarity ?p1 ?p2)
          = max 0 (round64 (round64 (jaccard (set [''the'', ''matrix''])
                                       (set [''the'', ''matrix'', ''reloaded''])) - round64 (2 / 10)))"
    using release_similarity_score [of ?p1 ?p2] by (simp add: truthy_str_def)
  then have "score (calculateReleaseSimilarity ?p1 ?p2)
          = max 0 (round64 (round64 (2 / 3) - round64 (2 / 10)))"
    by (simp only: j)
  then show ?thesis by (simp only: binary64_samples(1))
qed

lemma parse_token_keeps_group: "group (parse_token token False st) = group st"
  by (simp add: parse_token_def title_word_def Let_def)

lemma parse_earlier_keeps_group: "group (parse_earlier toks st) = group st"
  unfolding parse_earlier_def
  by (induction toks arbitrary: st) (simp_all add: parse_token_keeps_group)

lemma parse_loop_snoc:
  "parse_loop (toks @ [t]) st = parse_token t True (parse_earlier toks st)"
  unfolding parse_earlier_def
  by (induction toks arbitrary: st) simp_all

lemma split_space_nonempty: "split_space s \<noteq> []"
  by (induction s) (simp_all split: list.splits)

lemma tokens_of_nonempty: "tokens_of title \<noteq> []"
  by (simp add: tokens_of_def split_space_nonempty)

lemma group_of_last_round:
  "group (parse_token t True st) =
     (if (\<not> truthy_str (year st) \<and> is_year t) \<or>
         (\<not> truthy_str (resolution st) \<and>
            (is_resolution (toLowerCase t) \<or> toLowerCase t = ''4k'' \<or> toLowerCase t = ''uhd'')) \<or>
         toLowerCase t \<in> set QUALITY_TOKENS \<or> toLowerCase t \<in> set LANGUAGE_TOKENS
      then group st else Some (toLowerCase t))"
  by (simp add: parse_token_def title_word_def Let_def)

text \<open>
  C7 (amended). The release group comes from the last token of the normalized title only.
  The \<^verbatim>\<open>group\<close> field is that token in lower case, unless the token is taken as the
  year or as the resolution (no year, or no resolution, was found among the earlier
  tokens) or is a quality token or a language token; in those cases, and for an empty
  title, the field is null.
\<close>

theorem release_group_from_last_token:
  "group (parseReleaseTokens title) =
     (if title = [] then None
      else
        let toks = tokens_of title;
            lower = toLowerCase (last toks);
            st = parse_earlier (butlast toks) (parse_start title)
        in if (\<not> truthy_str (year st) \<and> is_year (last toks)) \<or>
              (\<not> truthy_str (resolution st) \<and>
                 (is_resolution lower \<or> lower = ''4k'' \<or> lower = ''uhd'')) \<or>
              lower \<in> set QUALITY_TOKENS \<or> lower \<in> set LANGUAGE_TOKENS
           then None
           else Some lower)"
proof (cases "title = []")
  case True
  then show ?thesis by (simp add: parseReleaseTokens_def)
next
  case False
  let ?toks = "tokens_of title"
  let ?st = "parse_earlier (butlast ?toks) (parse_start title)"
  have "parse_loop ?toks (parse_start title) = parse_token (last ?toks) True ?st"
    using parse_loop_snoc [of "butlast ?toks" "last ?toks" "parse_start title"]
      tokens_of_nonempty [of title] by simp
  moreover have "group ?st = None"
    by (simp add: parse_earlier_keeps_group parse_start_def)
  ultimately show ?thesis
    using False
    by (simp add: parseReleaseTokens_def parsed.defs group_of_last_round Let_def)
qed

theorem release_group_from_last_token_witness:
  "group (parseReleaseTokens ''Show.S01E01.1080p.WEB.x264-GROUP'') = Some ''group''"
proof -
  have "(if ''Show.S01E01.1080p.WEB.x264-GROUP'' = [] then None
      else
        let toks = tokens_of ''Show.S01E01.1080p.WEB.x264-GROUP'';
            lower = toLowerCase (last toks);
            st = parse_earlier (butlast toks) (parse_start ''Show.S01E01.1080p.WEB.x264-GROUP'')
        in if (\<not> truthy_str (year st) \<and> is_year (last toks)) \<or>
              (\<not> truthy_str (resolution st) \<and>
                 (is_resolution lower \<or> lower = ''4k'' \<or> lower = ''uhd'')) \<or>
              lower \<in> set QUALITY_TOKENS \<or> lower \<in> set LANGUAGE_TOKENS
           then None
           else Some lower) = Some ''group''"
    by code_simp
  then show ?thesis
    by (simp only: release_group_from_last_token)
qed

text \<open>
  C7 as stated fails: the title \<^verbatim>\<open>Movie.GRP.x264\<close> ends in a quality token, its final
  non-quality token is \<^verbatim>\<open>GRP\<close>, and the \<^verbatim>\<open>group\<close> field is null.
\<close>

theorem group_is_not_final_non_quality_token:
  "tokens_of ''Movie.GRP.x264'' = [''Movie'', ''GRP'', ''x264''] \<and>
   final_non_quality_token (tokens_of ''Movie.GRP.x264'') = Some ''GRP'' \<and>
   group (parseReleaseTokens ''Movie.GRP.x264'') = None"
  by code_simp

lemma allWords1InWords2_iff:
  "allWords1InWords2 (calculateReleaseSimilarity p1 p2)
     \<longleftrightarrow> titleWords p1 \<noteq> [] \<and> set (titleWords p1) \<subseteq> set (titleWords p2)"
  by (auto simp: calculateReleaseSimilarity_def Let_def list_all_iff)

lemma allWords2InWords1_iff:
  "allWords2InWords1 (calculateReleaseSimilarity p1 p2)
     \<longleftrightarrow> titleWords p2 \<noteq> [] \<and> set (titleWords p2) \<subseteq> set (titleWords p1)"
  by (auto simp: calculateReleaseSimilarity_def Let_def list_all_iff)

lemma sort_descending_sorted:
  "sorted_wrt (\<lambda>a b. similarity b \<le> similarity a) (sort_descending ms)"
proof -
  have "sorted (map (\<lambda>m. - similarity m) (sort_descending ms))"
    unfolding sort_descending_def by (rule sorted_sort_key)
  then show ?thesis by (simp add: sorted_map)
qed

lemma sort_descending_set: "set (sort_descending ms) = set ms"
  by (simp add: sort_descending_def)

lemma sort_descending_length: "length (sort_descending ms) = length ms"
  by (simp add: sort_descending_def)

lemma match_of_fields:
  "similarity (match_of sp item)
     = score (calculateReleaseSimilarity sp (parseReleaseTokens (history_title (fst item) (snd item))))"
  "details (match_of sp item)
     = calculateReleaseSimilarity sp (parseReleaseTokens (history_title (fst item) (snd item)))"
  "entry (match_of sp item) = snd item"
  "normalizedTitle (match_of sp item) = fst item"
  by (simp_all add: match_of_def Let_def)

lemma isMatch_match_of:
  assumes "titleWords sp \<noteq> []"
  shows "isMatch opts (details (match_of sp item)) \<longleftrightarrow>
           (let sw = titleWords sp;
                hw = titleWords (parseReleaseTokens (history_title (fst item) (snd item)))
            in if requireAllWords opts then set sw \<subseteq> set hw
               else minSimilarity opts \<le> similarity (match_of sp item) \<or> set sw \<subseteq> set hw \<or>
                    (hw \<noteq> [] \<and> set hw \<subseteq> set sw))"
  using assms
  by (simp add: isMatch_def match_of_fields allWords1InWords2_iff allWords2InWords1_iff Let_def)

text \<open>
  C5 (amended). When the search title has no title word the result is empty. Otherwise the
  result is sorted by descending score, holds one match for each accepted history entry,
  and consists exactly of the matches of the accepted entries: in fuzzy mode an entry is
  accepted when its score is at least the minimum similarity (a score equal to the
  threshold is accepted) or every search word occurs in the history title or every word of
  a non-empty history title occurs in the search title; in strict mode it is accepted
  exactly when every search word occurs in the history title, whatever the score. The
  score of a match is the binary64 score of \<^verbatim>\<open>calculateReleaseSimilarity\<close>, and the
  comparison with the threshold is exact.
\<close>

theorem history_matching_policy:
  "(titleWords (parseReleaseTokens searchTitle) = [] \<longrightarrow>
      findMatchingHistoryItems searchTitle historyMap opts = []) \<and>
   (titleWords (parseReleaseTokens searchTitle) \<noteq> [] \<longrightarrow>
      sorted_wrt (\<lambda>a b. similarity b \<le> similarity a)
        (findMatchingHistoryItems searchTitle historyMap opts) \<and>
      length (findMatchingHistoryItems searchTitle historyMap opts)
        = length (filter (\<lambda>item.
            let sw = titleWords (parseReleaseTokens searchTitle);
                hw = titleWords (parseReleaseTokens (history_title (fst item) (snd item)))
            in if requireAllWords opts then set sw \<subseteq> set hw
               else minSimilarity opts
                      \<le> similarity (match_of (parseReleaseTokens searchTitle) item) \<or>
                    set sw \<subseteq> set hw \<or> (hw \<noteq> [] \<and> set hw \<subseteq> set sw)) historyMap) \<and>
      (\<forall>m. m \<in> set (findMatchingHistoryItems searchTitle historyMap opts) \<longleftrightarrow>
         (\<exists>item \<in> set historyMap.
            m = match_of (parseReleaseTokens searchTitle) item \<and>
            (let sw = titleWords (parseReleaseTokens searchTitle);
                 hw = titleWords (parseReleaseTokens (history_title (fst item) (snd item)))
             in if requireAllWords opts then set sw \<subseteq> set hw
                else minSimilarity opts \<le> similarity m \<or> set sw \<subseteq> set hw \<or>
                     (hw \<noteq> [] \<and> set hw \<subseteq> set sw))))) \<and>
   similarity (match_of (parseReleaseTokens searchTitle) item)
     = score (calculateReleaseSimilarity (parseReleaseTokens searchTitle)
                (parseReleaseTokens (history_title (fst item) (snd item))))"
proof (intro conjI impI allI)
  show "similarity (match_of (parseReleaseTokens searchTitle) item)
     = score (calculateReleaseSimilarity (parseReleaseTokens searchTitle)
                (parseReleaseTokens (history_title (fst item) (snd item))))"
    by (rule match_of_fields)
next
  assume "titleWords (parseReleaseTokens searchTitle) = []"
  then show "findMatchingHistoryItems searchTitle historyMap opts = []"
    by (simp add: findMatchingHistoryItems_def Let_def)
next
  let ?sp = "parseReleaseTokens searchTitle"
  let ?ms = "filter (\<lambda>m. isMatch opts (details m)) (map (match_of ?sp) historyMap)"
  assume ne: "titleWords ?sp \<noteq> []"
  then have st: "searchTitle \<noteq> []" by (auto simp: parseReleaseTokens_def)
  have r: "findMatchingHistoryItems searchTitle historyMap opts = sort_descending ?ms"
  proof (cases "historyMap = []")
    case True
    then show ?thesis by (simp add: findMatchingHistoryItems_def sort_descending_def)
  next
    case False
    then show ?thesis using ne st by (simp add: findMatchingHistoryItems_def Let_def)
  qed
  show "sorted_wrt (\<lambda>a b. similarity b \<le> similarity a)
        (findMatchingHistoryItems searchTitle historyMap opts)"
    unfolding r by (rule sort_descending_sorted)
  have "length ?ms
          = length (filter (\<lambda>item. isMatch opts (details (match_of ?sp item))) historyMap)"
    by (simp add: filter_map comp_def)
  also have "\<dots> = length (filter (\<lambda>item.
            let sw = titleWords ?sp;
                hw = titleWords (parseReleaseTokens (history_title (fst item) (snd item)))
            in if requireAllWords opts then set sw \<subseteq> set hw
               else minSimilarity opts \<le> similarity (match_of ?sp item) \<or>
                    set sw \<subseteq> set hw \<or> (hw \<noteq> [] \<and> set hw \<subseteq> set sw)) historyMap)"
    by (simp only: isMatch_match_of [OF ne])
  finally show "length (findMatchingHistoryItems searchTitle historyMap opts)
        = length (filter (\<lambda>item.
            let sw = titleWords ?sp;
                hw = titleWords (parseReleaseTokens (history_title (fst item) (snd item)))
            in if requireAllWords opts then set sw \<subseteq> set hw
               else minSimilarity opts \<le> similarity (match_of ?sp item) \<or>
                    set sw \<subseteq> set hw \<or> (hw \<noteq> [] \<and> set hw \<subseteq> set sw)) historyMap)"
    unfolding r by (simp only: sort_descending_length)
  fix m
  show "m \<in> set (findMatchingHistoryItems searchTitle historyMap opts) \<longleftrightarrow>
         (\<exists>item \<in> set historyMap.
            m = match_of ?sp item \<and>
            (let sw = titleWords ?sp;
                 hw = titleWords (parseReleaseTokens (history_title (fst item) (snd item)))
             in if requireAllWords opts then set sw \<subseteq> set hw
                else minSimilarity opts \<le> similarity m \<or> set sw \<subseteq> set hw \<or>
                     (hw \<noteq> [] \<and> set hw \<subseteq> set sw)))"
  proof -
    have "m \<in> set (findMatchingHistoryItems searchTitle historyMap opts) \<longleftrightarrow>
            (\<exists>item \<in> set historyMap. m = match_of ?sp item \<and>
               isMatch opts (details (match_of ?sp item)))"
      unfolding r sort_descending_set by auto
    also have "\<dots> \<longleftrightarrow>
         (\<exists>item \<in> set historyMap.
            m = match_of ?sp item \<and>
            (let sw = titleWords ?sp;
                 hw = titleWords (parseReleaseTokens (history_title (fst item) (snd item)))
             in if requireAllWords opts then set sw \<subseteq> set hw
                else minSimilarity opts \<le> similarity (match_of ?sp item) \<or> set sw \<subseteq> set hw \<or>
                     (hw \<noteq> [] \<and> set hw \<subseteq> set sw)))"
      by (simp only: isMatch_match_of [OF ne])
    also have "\<dots> \<longleftrightarrow>
         (\<exists>item \<in> set historyMap.
            m = match_of ?sp item \<and>
            (let sw = titleWords ?sp;
                 hw = titleWords (parseReleaseTokens (history_title (fst item) (snd item)))
             in if requireAllWords opts then set sw \<subseteq> set hw
                else minSimilarity opts \<le> similarity m \<or> set sw \<subseteq> set hw \<or>
                     (hw \<noteq> [] \<and> set hw \<subseteq> set sw)))"
      by (intro bex_cong refl conj_cong) simp
    finally show ?thesis .
  qed
qed


lemma matrix_words:
  "titleWords (parseReleaseTokens ''The Matrix Reloaded'') = [''the'', ''matrix'', ''reloaded'']"
  "titleWords (parseReleaseTokens ''The.Matrix.1999'') = [''the'', ''matrix'']"
  by code_simp+

theorem history_matching_policy_witness:
  "titleWords (parseReleaseTokens ''The Matrix Reloaded'') \<noteq> [] \<and>
   sorted_wrt (\<lambda>a b. similarity b \<le> similarity a)
     (findMatchingHistoryItems ''The Matrix Reloaded''
        [(''the matrix 1999'', \<lparr>jobName = Some ''The.Matrix.1999''\<rparr>)] default_options) \<and>
   match_of (parseReleaseTokens ''The Matrix Reloaded'')
       (''the matrix 1999'', \<lparr>jobName = Some ''The.Matrix.1999''\<rparr>)
     \<in> set (findMatchingHistoryItems ''The Matrix Reloaded''
        [(''the matrix 1999'', \<lparr>jobName = Some ''The.Matrix.1999''\<rparr>)] default_options)"
proof -
  have ne: "titleWords (parseReleaseTokens ''The Matrix Reloaded'') \<noteq> []"
    by (simp add: matrix_words)
  have ht: "history_title ''the matrix 1999'' \<lparr>jobName = Some ''The.Matrix.1999''\<rparr> = ''The.Matrix.1999''"
    by (simp add: history_title_def truthy_str_def)
  note t = history_matching_policy [of "''The Matrix Reloaded''"
       "[(''the matrix 1999'', \<lparr>jobName = Some ''The.Matrix.1999''\<rparr>)]" default_options]
  have s: "sorted_wrt (\<lambda>a b. similarity b \<le> similarity a)
     (findMatchingHistoryItems ''The Matrix Reloaded''
        [(''the matrix 1999'', \<lparr>jobName = Some ''The.Matrix.1999''\<rparr>)] default_options)"
    using t ne by blast
  have "\<forall>m. m \<in> set (findMatchingHistoryItems ''The Matrix Reloaded''
        [(''the matrix 1999'', \<lparr>jobName = Some ''The.Matrix.1999''\<rparr>)] default_options) \<longleftrightarrow>
         (\<exists>item \<in> set [(''the matrix 1999'', \<lparr>jobName = Some ''The.Matrix.1999''\<rparr>)].
            m = match_of (parseReleaseTokens ''The Matrix Reloaded'') item \<and>
            (let sw = titleWords (parseReleaseTokens ''The Matrix Reloaded'');
                 hw = titleWords (parseReleaseTokens (history_title (fst item) (snd item)))
             in if requireAllWords default_options then set sw \<subseteq> set hw
                else minSimilarity default_options \<le> similarity m \<or> set sw \<subseteq> set hw \<or>
                     (hw \<noteq> [] \<and> set hw \<subseteq> set sw)))"
    using t ne by blast
  then have m: "match_of (parseReleaseTokens ''The Matrix Reloaded'')
       (''the matrix 1999'', \<lparr>jobName = Some ''The.Matrix.1999''\<rparr>)
     \<in> set (findMatchingHistoryItems ''The Matrix Reloaded''
        [(''the matrix 1999'', \<lparr>jobName = Some ''The.Matrix.1999''\<rparr>)] default_options)"
    by (simp add: ht matrix_words default_options_def)
  show ?thesis using ne s m by simp
qed

lemma year_title_words:
  "titleWords (parseReleaseTokens ''1917'') = []"
  "year (parseReleaseTokens ''1917'') = Some ''1917''"
  "titleWords (parseReleaseTokens ''1917.2019.1080p.BluRay'') = []"
  "year (parseReleaseTokens ''1917.2019.1080p.BluRay'') = Some ''1917''"
  by code_simp+

text \<open>
  C5 as stated fails: for the search title \<^verbatim>\<open>1917\<close>, which parses to a year and no title
  word, and a minimum similarity of \<^verbatim>\<open>0.1\<close>, the history entry
  \<^verbatim>\<open>1917.2019.1080p.BluRay\<close> has a score equal to the threshold, and the result is empty.
\<close>

theorem threshold_met_but_no_match:
  "score (calculateReleaseSimilarity (parseReleaseTokens ''1917'')
      (parseReleaseTokens (history_title ''1917 2019 1080p bluray''
         \<lparr>jobName = Some ''1917.2019.1080p.BluRay''\<rparr>))) = round64 (1 / 10) \<and>
   minSimilarity (default_options\<lparr>minSimilarity := round64 (1 / 10)\<rparr>) = round64 (1 / 10) \<and>
   findMatchingHistoryItems ''1917''
     [(''1917 2019 1080p bluray'', \<lparr>jobName = Some ''1917.2019.1080p.BluRay''\<rparr>)]
     (default_options\<lparr>minSimilarity := round64 (1 / 10)\<rparr>) = []"
proof -
  have m: "min 1 (round64 (round64 (1 / 10))) = round64 (1 / 10)" by code_simp
  have "score (calculateReleaseSimilarity (parseReleaseTokens ''1917'')
      (parseReleaseTokens (history_title ''1917 2019 1080p bluray''
         \<lparr>jobName = Some ''1917.2019.1080p.BluRay''\<rparr>))) = min 1 (round64 (round64 (1 / 10)))"
    by (simp add: history_title_def truthy_str_def calculateReleaseSimilarity_def
        calculateWordSimilarity_def year_title_words Let_def)
  then show ?thesis
    by (simp add: m year_title_words findMatchingHistoryItems_def Let_def)
qed

text \<open>
  The boundary in binary64. The titles below share three of five title words, a ratio of
  \<^verbatim>\<open>0.6\<close>, and their years differ: the score is \<^verbatim>\<open>0.39999999999999997\<close>, one unit in
  the last place below \<^verbatim>\<open>0.4\<close>, and with a minimum similarity of \<^verbatim>\<open>0.4\<close> the entry is
  not a match. With a minimum similarity equal to the score it is.
\<close>

lemma boundary_words:
  "titleWords (parseReleaseTokens ''Alpha Beta Gamma Delta 2020'')
     = [''alpha'', ''beta'', ''gamma'', ''delta'']"
  "year (parseReleaseTokens ''Alpha Beta Gamma Delta 2020'') = Some ''2020''"
  "titleWords (parseReleaseTokens ''Alpha.Beta.Gamma.Omega.2019.1080p'')
     = [''alpha'', ''beta'', ''gamma'', ''omega'']"
  "year (parseReleaseTokens ''Alpha.Beta.Gamma.Omega.2019.1080p'') = Some ''2019''"
  by code_simp+

lemma boundary_score:
  "score (calculateReleaseSimilarity (parseReleaseTokens ''Alpha Beta Gamma Delta 2020'')
      (parseReleaseTokens ''Alpha.Beta.Gamma.Omega.2019.1080p''))
     = 7205759403792793 / 18014398509481984"
proof -
  have "score (calculateReleaseSimilarity (parseReleaseTokens ''Alpha Beta Gamma Delta 2020'')
      (parseReleaseTokens ''Alpha.Beta.Gamma.Omega.2019.1080p''))
     = max 0 (round64 (round64 (3 / 5) - round64 (2 / 10)))"
    by (simp add: calculateReleaseSimilarity_def calculateWordSimilarity_def boundary_words
        truthy_str_def Let_def)
  then show ?thesis by (simp only: binary64_samples(2))
qed

lemma one_unit_below_threshold_is_no_match:
  "findMatchingHistoryItems ''Alpha Beta Gamma Delta 2020''
     [(''alpha beta gamma omega 2019 1080p'',
       \<lparr>jobName = Some ''Alpha.Beta.Gamma.Omega.2019.1080p''\<rparr>)]
     (default_options\<lparr>minSimilarity := round64 (4 / 10)\<rparr>) = []"
proof -
  have "\<not> round64 (4 / 10) \<le> 7205759403792793 / 18014398509481984"
    by (simp only: binary64_samples(6))
  then show ?thesis
    by (simp add: findMatchingHistoryItems_def Let_def boundary_words sort_descending_def
        isMatch_def match_of_def history_title_def truthy_str_def default_options_def
        allWords1InWords2_iff allWords2InWords1_iff boundary_score)
qed

lemma score_at_threshold_is_a_match:
  "map normalizedTitle (findMatchingHistoryItems ''Alpha Beta Gamma Delta 2020''
     [(''alpha beta gamma omega 2019 1080p'',
       \<lparr>jobName = Some ''Alpha.Beta.Gamma.Omega.2019.1080p''\<rparr>)]
     (default_options\<lparr>minSimilarity := 7205759403792793 / 18014398509481984\<rparr>))
     = [''alpha beta gamma omega 2019 1080p'']"
  by (simp add: findMatchingHistoryItems_def Let_def boundary_words sort_descending_def
      isMatch_def match_of_def history_title_def truthy_str_def default_options_def
      allWords1InWords2_iff allWords2InWords1_iff boundary_score)

text \<open>
  Strict mode looks in one direction only: the words of \<^verbatim>\<open>The.Matrix.1999\<close> all occur in
  the search title \<^verbatim>\<open>The Matrix Reloaded\<close>, and strict mode does not accept the entry.
\<close>

lemma strict_mode_is_one_directional:
  "allWords2InWords1 (calculateReleaseSimilarity (parseReleaseTokens ''The Matrix Reloaded'')
      (parseReleaseTokens ''The.Matrix.1999'')) \<and>
   findMatchingHistoryItems ''The Matrix Reloaded''
     [(''the matrix 1999'', \<lparr>jobName = Some ''The.Matrix.1999''\<rparr>)]
     (default_options\<lparr>requireAllWords := True\<rparr>) = []"
  by (simp add: findMatchingHistoryItems_def Let_def matrix_words sort_descending_def
      isMatch_def match_of_def history_title_def truthy_str_def default_options_def
      allWords1InWords2_iff allWords2InWords1_iff)

end
